theory Spec2Isabelle
  imports Complex_Main "HOL-Library.Word" "HOL-Library.Monad_Syntax"
begin

section \<open>Collision candidates of the broad phase\<close>

text \<open>
  A shallow embedding of \<^verbatim>\<open>src/broad_phase/collision_candidate.cpp\<close>: the candidate
  value types with their equality and order, the CCD dispatch, the \<^verbatim>\<open>Candidates\<close>
  container and the OBJ writer.

  Mesh indices are C++ \<^verbatim>\<open>long\<close> values: 64-bit words read as two's complement, so
  that \<^verbatim>\<open><\<close> on them is the signed order \<open><s\<close>. Nothing in the file computes with
  them; they are stored, compared and used as matrix indices.
\<close>

type_synonym long = "64 word"

text \<open>\<^verbatim>\<open>std::min(a, b)\<close> is \<^verbatim>\<open>(b < a) ? b : a\<close> and \<^verbatim>\<open>std::max(a, b)\<close> is
  \<^verbatim>\<open>(a < b) ? b : a\<close>.\<close>

definition std_min :: "long \<Rightarrow> long \<Rightarrow> long" where
  "std_min a b = (if b <s a then b else a)"

definition std_max :: "long \<Rightarrow> long \<Rightarrow> long" where
  "std_max a b = (if a <s b then b else a)"

subsection \<open>Candidate entities\<close>

text \<open>Each constructor of the source only stores its two arguments in the two
  members, in the order given; the datatype constructors below are those constructors.\<close>

datatype VertexVertexCandidate =
  VertexVertexCandidate (vertex0_index: long) (vertex1_index: long)

datatype EdgeVertexCandidate =
  EdgeVertexCandidate (ev_edge_index: long) (ev_vertex_index: long)

datatype EdgeEdgeCandidate =
  EdgeEdgeCandidate (edge0_index: long) (edge1_index: long)

datatype EdgeFaceCandidate =
  EdgeFaceCandidate (ef_edge_index: long) (ef_face_index: long)

datatype FaceVertexCandidate =
  FaceVertexCandidate (fv_face_index: long) (fv_vertex_index: long)

text \<open>\<^verbatim>\<open>VertexVertexCandidate::operator==\<close> and \<^verbatim>\<open>operator<\<close>.\<close>

definition VertexVertexCandidate_eq ::
  "VertexVertexCandidate \<Rightarrow> VertexVertexCandidate \<Rightarrow> bool" where
  "VertexVertexCandidate_eq this other =
     (vertex0_index this = vertex0_index other
      \<and> vertex1_index this = vertex1_index other)"

definition VertexVertexCandidate_less ::
  "VertexVertexCandidate \<Rightarrow> VertexVertexCandidate \<Rightarrow> bool" where
  "VertexVertexCandidate_less this other =
     (if vertex0_index this = vertex0_index other
      then vertex1_index this <s vertex1_index other
      else vertex0_index this <s vertex0_index other)"

text \<open>\<^verbatim>\<open>EdgeVertexCandidate::operator==\<close> and \<^verbatim>\<open>operator<\<close>.\<close>

definition EdgeVertexCandidate_eq ::
  "EdgeVertexCandidate \<Rightarrow> EdgeVertexCandidate \<Rightarrow> bool" where
  "EdgeVertexCandidate_eq this other =
     (ev_edge_index this = ev_edge_index other
      \<and> ev_vertex_index this = ev_vertex_index other)"

definition EdgeVertexCandidate_less ::
  "EdgeVertexCandidate \<Rightarrow> EdgeVertexCandidate \<Rightarrow> bool" where
  "EdgeVertexCandidate_less this other =
     (if ev_edge_index this = ev_edge_index other
      then ev_vertex_index this <s ev_vertex_index other
      else ev_edge_index this <s ev_edge_index other)"

text \<open>\<^verbatim>\<open>EdgeEdgeCandidate::operator==\<close> accepts the pair in either order;
  \<^verbatim>\<open>operator<\<close> compares the smaller indices first and the larger ones on a tie.\<close>

definition EdgeEdgeCandidate_eq ::
  "EdgeEdgeCandidate \<Rightarrow> EdgeEdgeCandidate \<Rightarrow> bool" where
  "EdgeEdgeCandidate_eq this other =
     ((edge0_index this = edge0_index other \<and> edge1_index this = edge1_index other)
      \<or> (edge0_index this = edge1_index other \<and> edge1_index this = edge0_index other))"

definition EdgeEdgeCandidate_less ::
  "EdgeEdgeCandidate \<Rightarrow> EdgeEdgeCandidate \<Rightarrow> bool" where
  "EdgeEdgeCandidate_less this other =
     (let this_min = std_min (edge0_index this) (edge1_index this);
          other_min = std_min (edge0_index other) (edge1_index other)
      in if this_min = other_min
         then std_max (edge0_index this) (edge1_index this)
              <s std_max (edge0_index other) (edge1_index other)
         else this_min <s other_min)"

text \<open>\<^verbatim>\<open>EdgeFaceCandidate::operator==\<close> and \<^verbatim>\<open>operator<\<close>.\<close>

definition EdgeFaceCandidate_eq ::
  "EdgeFaceCandidate \<Rightarrow> EdgeFaceCandidate \<Rightarrow> bool" where
  "EdgeFaceCandidate_eq this other =
     (ef_edge_index this = ef_edge_index other
      \<and> ef_face_index this = ef_face_index other)"

definition EdgeFaceCandidate_less ::
  "EdgeFaceCandidate \<Rightarrow> EdgeFaceCandidate \<Rightarrow> bool" where
  "EdgeFaceCandidate_less this other =
     (if ef_edge_index this = ef_edge_index other
      then ef_face_index this <s ef_face_index other
      else ef_edge_index this <s ef_edge_index other)"

text \<open>\<^verbatim>\<open>FaceVertexCandidate::operator==\<close> and \<^verbatim>\<open>operator<\<close>.\<close>

definition FaceVertexCandidate_eq ::
  "FaceVertexCandidate \<Rightarrow> FaceVertexCandidate \<Rightarrow> bool" where
  "FaceVertexCandidate_eq this other =
     (fv_face_index this = fv_face_index other
      \<and> fv_vertex_index this = fv_vertex_index other)"

definition FaceVertexCandidate_less ::
  "FaceVertexCandidate \<Rightarrow> FaceVertexCandidate \<Rightarrow> bool" where
  "FaceVertexCandidate_less this other =
     (if fv_face_index this = fv_face_index other
      then fv_vertex_index this <s fv_vertex_index other
      else fv_face_index this <s fv_face_index other)"

text \<open>The order the specification describes for edge-edge candidates: lexicographic on
  the pair (smaller index, larger index), the indices compared as signed integers.\<close>

definition ee_min_max_key :: "EdgeEdgeCandidate \<Rightarrow> int \<times> int" where
  "ee_min_max_key c =
     (min (sint (edge0_index c)) (sint (edge1_index c)),
      max (sint (edge0_index c)) (sint (edge1_index c)))"

definition lex_less :: "int \<times> int \<Rightarrow> int \<times> int \<Rightarrow> bool" where
  "lex_less p q = (fst p < fst q \<or> (fst p = fst q \<and> snd p < snd q))"

text \<open>Exactly one of three conditions holds.\<close>

definition exactly_one :: "bool \<Rightarrow> bool \<Rightarrow> bool \<Rightarrow> bool" where
  "exactly_one p q r = ((p \<and> \<not> q \<and> \<not> r) \<or> (\<not> p \<and> q \<and> \<not> r) \<or> (\<not> p \<and> \<not> q \<and> r))"

subsection \<open>Mesh tables\<close>

text \<open>
  An \<^verbatim>\<open>Eigen\<close> matrix is the list of its rows. \<^verbatim>\<open>Eigen::MatrixXi\<close> holds C++
  \<^verbatim>\<open>int\<close> coefficients (32-bit words read as two's complement); the coefficient type
  of \<^verbatim>\<open>Eigen::MatrixXd\<close> is left open, since positions are only passed on. Reading a
  row or a coefficient outside the matrix fails Eigen's index assertion (and is undefined
  without it): the lookups return \<open>None\<close> there.
\<close>

type_synonym cint = "32 word"

type_synonym 'a matrix = "'a list list"

definition in_rows :: "'a matrix \<Rightarrow> int \<Rightarrow> bool" where
  "in_rows M i = (0 \<le> i \<and> i < int (length M))"

definition row :: "'a matrix \<Rightarrow> int \<Rightarrow> 'a list option" where
  "row M i = (if in_rows M i then Some (M ! nat i) else None)"

definition coeff :: "'a matrix \<Rightarrow> int \<Rightarrow> nat \<Rightarrow> 'a option" where
  "coeff M i j =
     (case row M i of
        None \<Rightarrow> None
      | Some r \<Rightarrow> if j < length r then Some (r ! j) else None)"

subsection \<open>CCD dispatch\<close>

text \<open>
  The kernels \<^verbatim>\<open>point_edge_ccd\<close>, \<^verbatim>\<open>edge_edge_ccd\<close> and \<^verbatim>\<open>point_triangle_ccd\<close>
  are declared outside this file: each dispatcher takes its kernel as its first argument.
  A kernel receives the rows, the current value of the \<^verbatim>\<open>toi\<close> reference and the four
  remaining parameters, and returns its verdict with the new value of \<^verbatim>\<open>toi\<close>.
  The source reads a coefficient such as \<^verbatim>\<open>E(edge_index, 0)\<close> once for \<^verbatim>\<open>V0\<close> and
  once for \<^verbatim>\<open>V1\<close>; the two reads give the same value and are one binding here.
\<close>

type_synonym 'd ccd_tail = "'d \<Rightarrow> 'd \<Rightarrow> 'd \<Rightarrow> long \<Rightarrow> 'd \<Rightarrow> bool \<times> 'd"

type_synonym 'd kernel6 =
  "'d list \<Rightarrow> 'd list \<Rightarrow> 'd list \<Rightarrow> 'd list \<Rightarrow> 'd list \<Rightarrow> 'd list \<Rightarrow> 'd ccd_tail"

type_synonym 'd kernel8 =
  "'d list \<Rightarrow> 'd list \<Rightarrow> 'd list \<Rightarrow> 'd list \<Rightarrow> 'd list \<Rightarrow> 'd list \<Rightarrow> 'd list \<Rightarrow> 'd list
   \<Rightarrow> 'd ccd_tail"

definition EdgeVertexCandidate_ccd ::
  "'d kernel6 \<Rightarrow> EdgeVertexCandidate \<Rightarrow> 'd matrix \<Rightarrow> 'd matrix \<Rightarrow> cint matrix \<Rightarrow> cint matrix
   \<Rightarrow> 'd \<Rightarrow> 'd \<Rightarrow> 'd \<Rightarrow> long \<Rightarrow> 'd \<Rightarrow> (bool \<times> 'd) option" where
  "EdgeVertexCandidate_ccd point_edge_ccd this V0 V1 E F
       toi tmax tolerance max_iterations conservative_rescaling =
     do {
       p_t0 \<leftarrow> row V0 (sint (ev_vertex_index this));
       a \<leftarrow> coeff E (sint (ev_edge_index this)) 0;
       b \<leftarrow> coeff E (sint (ev_edge_index this)) 1;
       e0_t0 \<leftarrow> row V0 (sint a);
       e1_t0 \<leftarrow> row V0 (sint b);
       p_t1 \<leftarrow> row V1 (sint (ev_vertex_index this));
       e0_t1 \<leftarrow> row V1 (sint a);
       e1_t1 \<leftarrow> row V1 (sint b);
       Some (point_edge_ccd p_t0 e0_t0 e1_t0 p_t1 e0_t1 e1_t1
               toi tmax tolerance max_iterations conservative_rescaling)
     }"

definition EdgeEdgeCandidate_ccd ::
  "'d kernel8 \<Rightarrow> EdgeEdgeCandidate \<Rightarrow> 'd matrix \<Rightarrow> 'd matrix \<Rightarrow> cint matrix \<Rightarrow> cint matrix
   \<Rightarrow> 'd \<Rightarrow> 'd \<Rightarrow> 'd \<Rightarrow> long \<Rightarrow> 'd \<Rightarrow> (bool \<times> 'd) option" where
  "EdgeEdgeCandidate_ccd edge_edge_ccd this V0 V1 E F
       toi tmax tolerance max_iterations conservative_rescaling =
     do {
       a0 \<leftarrow> coeff E (sint (edge0_index this)) 0;
       a1 \<leftarrow> coeff E (sint (edge0_index this)) 1;
       b0 \<leftarrow> coeff E (sint (edge1_index this)) 0;
       b1 \<leftarrow> coeff E (sint (edge1_index this)) 1;
       ea0_t0 \<leftarrow> row V0 (sint a0);
       ea1_t0 \<leftarrow> row V0 (sint a1);
       eb0_t0 \<leftarrow> row V0 (sint b0);
       eb1_t0 \<leftarrow> row V0 (sint b1);
       ea0_t1 \<leftarrow> row V1 (sint a0);
       ea1_t1 \<leftarrow> row V1 (sint a1);
       eb0_t1 \<leftarrow> row V1 (sint b0);
       eb1_t1 \<leftarrow> row V1 (sint b1);
       Some (edge_edge_ccd ea0_t0 ea1_t0 eb0_t0 eb1_t0 ea0_t1 ea1_t1 eb0_t1 eb1_t1
               toi tmax tolerance max_iterations conservative_rescaling)
     }"

definition FaceVertexCandidate_ccd ::
  "'d kernel8 \<Rightarrow> FaceVertexCandidate \<Rightarrow> 'd matrix \<Rightarrow> 'd matrix \<Rightarrow> cint matrix \<Rightarrow> cint matrix
   \<Rightarrow> 'd \<Rightarrow> 'd \<Rightarrow> 'd \<Rightarrow> long \<Rightarrow> 'd \<Rightarrow> (bool \<times> 'd) option" where
  "FaceVertexCandidate_ccd point_triangle_ccd this V0 V1 E F
       toi tmax tolerance max_iterations conservative_rescaling =
     do {
       p_t0 \<leftarrow> row V0 (sint (fv_vertex_index this));
       a \<leftarrow> coeff F (sint (fv_face_index this)) 0;
       b \<leftarrow> coeff F (sint (fv_face_index this)) 1;
       c \<leftarrow> coeff F (sint (fv_face_index this)) 2;
       t0_t0 \<leftarrow> row V0 (sint a);
       t1_t0 \<leftarrow> row V0 (sint b);
       t2_t0 \<leftarrow> row V0 (sint c);
       p_t1 \<leftarrow> row V1 (sint (fv_vertex_index this));
       t0_t1 \<leftarrow> row V1 (sint a);
       t1_t1 \<leftarrow> row V1 (sint b);
       t2_t1 \<leftarrow> row V1 (sint c);
       Some (point_triangle_ccd p_t0 t0_t0 t1_t0 t2_t0 p_t1 t0_t1 t1_t1 t2_t1
               toi tmax tolerance max_iterations conservative_rescaling)
     }"

text \<open>The rows each dispatcher is meant to read, when every index is inside its table.\<close>

definition vertex_ok :: "'d matrix \<Rightarrow> 'd matrix \<Rightarrow> int \<Rightarrow> bool" where
  "vertex_ok V0 V1 v = (in_rows V0 v \<and> in_rows V1 v)"

definition element_ok :: "'d matrix \<Rightarrow> 'd matrix \<Rightarrow> cint matrix \<Rightarrow> nat \<Rightarrow> int \<Rightarrow> bool" where
  "element_ok V0 V1 T n e =
     (in_rows T e \<and> n \<le> length (T ! nat e)
      \<and> list_all (vertex_ok V0 V1) (map sint (take n (T ! nat e))))"

definition vrow :: "'d matrix \<Rightarrow> long \<Rightarrow> 'd list" where
  "vrow V v = V ! nat (sint v)"

definition trow :: "'d matrix \<Rightarrow> cint matrix \<Rightarrow> long \<Rightarrow> nat \<Rightarrow> 'd list" where
  "trow V T e k = V ! nat (sint (T ! nat (sint e) ! k))"

subsection \<open>The candidate container\<close>

text \<open>
  \<^verbatim>\<open>Candidates\<close> holds the three vectors the member functions use. The record is
  extensible: whatever else an instance carries is its \<open>more\<close> part.
  \<^verbatim>\<open>size_t\<close> values are natural numbers; the three vectors live in one address space,
  so the sum of their sizes does not wrap.
\<close>

record Candidates =
  ev_candidates :: "EdgeVertexCandidate list"
  ee_candidates :: "EdgeEdgeCandidate list"
  fv_candidates :: "FaceVertexCandidate list"

definition Candidates_size :: "'a Candidates_scheme \<Rightarrow> nat" where
  "Candidates_size this =
     length (ev_candidates this) + length (ee_candidates this) + length (fv_candidates this)"

definition Candidates_empty :: "'a Candidates_scheme \<Rightarrow> bool" where
  "Candidates_empty this =
     (ev_candidates this = [] \<and> ee_candidates this = [] \<and> fv_candidates this = [])"

definition Candidates_clear :: "'a Candidates_scheme \<Rightarrow> 'a Candidates_scheme" where
  "Candidates_clear this =
     this\<lparr>ev_candidates := [], ee_candidates := [], fv_candidates := []\<rparr>"

text \<open>
  \<^verbatim>\<open>operator[]\<close> returns a reference to an element of one of the three vectors: the
  vector and the position in it. \<open>deref\<close> reads the element a reference points to, with
  its dynamic type. The exception is \<^verbatim>\<open>std::out_of_range\<close> with its message.
\<close>

datatype error = out_of_range string

datatype candidate_ref = ev_ref nat | ee_ref nat | fv_ref nat

datatype ContinuousCollisionCandidate =
  EV EdgeVertexCandidate | EE EdgeEdgeCandidate | FV FaceVertexCandidate

fun deref :: "'a Candidates_scheme \<Rightarrow> candidate_ref \<Rightarrow> ContinuousCollisionCandidate" where
  "deref this (ev_ref i) = EV (ev_candidates this ! i)"
| "deref this (ee_ref i) = EE (ee_candidates this ! i)"
| "deref this (fv_ref i) = FV (fv_candidates this ! i)"

text \<open>The non-const overload.\<close>

definition Candidates_index :: "'a Candidates_scheme \<Rightarrow> nat \<Rightarrow> error + candidate_ref" where
  "Candidates_index this idx =
     (if idx < 0 then Inl (out_of_range ''Constraint index is out of range!'')
      else if idx < length (ev_candidates this) then Inr (ev_ref idx)
      else let idx = idx - length (ev_candidates this) in
        if idx < length (ee_candidates this) then Inr (ee_ref idx)
        else let idx = idx - length (ee_candidates this) in
          if idx < length (fv_candidates this) then Inr (fv_ref idx)
          else Inl (out_of_range ''Constraint index is out of range!''))"

text \<open>The const overload.\<close>

definition Candidates_index_const ::
  "'a Candidates_scheme \<Rightarrow> nat \<Rightarrow> error + candidate_ref" where
  "Candidates_index_const this idx =
     (if idx < 0 then Inl (out_of_range ''Constraint index is out of range!'')
      else if idx < length (ev_candidates this) then Inr (ev_ref idx)
      else let idx = idx - length (ev_candidates this) in
        if idx < length (ee_candidates this) then Inr (ee_ref idx)
        else let idx = idx - length (ee_candidates this) in
          if idx < length (fv_candidates this) then Inr (fv_ref idx)
          else Inl (out_of_range ''Constraint index is out of range!''))"

subsection \<open>The OBJ writer\<close>

text \<open>
  What a \<^verbatim>\<open><<\<close> of the writer puts on the stream is one record: an object header
  \<^verbatim>\<open>o NAME\<close>, a row printed with \<^verbatim>\<open>OBJ_VERTEX_FORMAT\<close> (\<^verbatim>\<open>v x y z\<close>), a line
  \<^verbatim>\<open>l a b\<close> or a face \<^verbatim>\<open>f a b c\<close>. The counter \<^verbatim>\<open>i\<close> is a C++ \<^verbatim>\<open>int\<close>, whose
  overflow is undefined; it is an integer here.
\<close>

datatype 'd obj_record =
  Object string | Vertex "'d list" | Line int int | Face int int int

text \<open>
  An output file stream: whether it is open, its sticky failure bit, how many more
  records the device takes, and what it holds. A \<^verbatim>\<open><<\<close> on a stream that is not open,
  has failed or has no room left writes nothing and sets the failure bit.
\<close>

record 'd ofstream =
  is_open :: bool
  badbit :: bool
  room :: nat
  written :: "'d obj_record list"

definition put :: "'d obj_record \<Rightarrow> 'd ofstream \<Rightarrow> 'd ofstream" where
  "put x out =
     (if \<not> is_open out \<or> badbit out \<or> room out = 0 then out\<lparr>badbit := True\<rparr>
      else out\<lparr>room := room out - 1, written := written out @ [x]\<rparr>)"

text \<open>A stream that is open, has not failed and takes at least \<open>n\<close> more records.\<close>

definition ready :: "nat \<Rightarrow> 'd ofstream \<Rightarrow> bool" where
  "ready n out = (is_open out \<and> \<not> badbit out \<and> n \<le> room out)"

text \<open>
  The file system says, for a file name, whether the file can be opened for writing and,
  if so, how many records it takes. \<^verbatim>\<open>std::ofstream obj(filename, std::ios::out)\<close>
  opens the file empty.
\<close>

type_synonym filesystem = "string \<rightharpoonup> nat"

definition ofstream_open :: "filesystem \<Rightarrow> string \<Rightarrow> 'd ofstream" where
  "ofstream_open fs filename =
     (case fs filename of
        None \<Rightarrow> \<lparr>is_open = False, badbit = True, room = 0, written = []\<rparr>
      | Some n \<Rightarrow> \<lparr>is_open = True, badbit = False, room = n, written = []\<rparr>)"

text \<open>The loop of \<^verbatim>\<open>save_obj\<close> for edge-vertex candidates, and the function.\<close>

fun save_obj_ev_loop ::
  "'d matrix \<Rightarrow> cint matrix \<Rightarrow> cint matrix \<Rightarrow> EdgeVertexCandidate list \<Rightarrow> int
   \<Rightarrow> 'd ofstream \<Rightarrow> 'd ofstream option" where
  "save_obj_ev_loop V E F [] i out = Some out"
| "save_obj_ev_loop V E F (ev_candidate # rest) i out =
     do {
       a \<leftarrow> coeff E (sint (ev_edge_index ev_candidate)) 0;
       r \<leftarrow> row V (sint a);
       let out = put (Vertex r) out;
       b \<leftarrow> coeff E (sint (ev_edge_index ev_candidate)) 1;
       r \<leftarrow> row V (sint b);
       let out = put (Vertex r) out;
       r \<leftarrow> row V (sint (ev_vertex_index ev_candidate));
       let out = put (Vertex r) out;
       let out = put (Line i (i + 1)) out;
       save_obj_ev_loop V E F rest (i + 3) out
     }"

definition save_obj_ev ::
  "'d ofstream \<Rightarrow> 'd matrix \<Rightarrow> cint matrix \<Rightarrow> cint matrix \<Rightarrow> EdgeVertexCandidate list
   \<Rightarrow> 'd ofstream option" where
  "save_obj_ev out V E F candidates =
     save_obj_ev_loop V E F candidates 1 (put (Object ''EV'') out)"

text \<open>The same for edge-edge candidates.\<close>

fun save_obj_ee_loop ::
  "'d matrix \<Rightarrow> cint matrix \<Rightarrow> cint matrix \<Rightarrow> EdgeEdgeCandidate list \<Rightarrow> int
   \<Rightarrow> 'd ofstream \<Rightarrow> 'd ofstream option" where
  "save_obj_ee_loop V E F [] i out = Some out"
| "save_obj_ee_loop V E F (ee_candidate # rest) i out =
     do {
       a \<leftarrow> coeff E (sint (edge0_index ee_candidate)) 0;
       r \<leftarrow> row V (sint a);
       let out = put (Vertex r) out;
       b \<leftarrow> coeff E (sint (edge0_index ee_candidate)) 1;
       r \<leftarrow> row V (sint b);
       let out = put (Vertex r) out;
       c \<leftarrow> coeff E (sint (edge1_index ee_candidate)) 0;
       r \<leftarrow> row V (sint c);
       let out = put (Vertex r) out;
       d \<leftarrow> coeff E (sint (edge1_index ee_candidate)) 1;
       r \<leftarrow> row V (sint d);
       let out = put (Vertex r) out;
       let out = put (Line (i + 0) (i + 1)) out;
       let out = put (Line (i + 2) (i + 3)) out;
       save_obj_ee_loop V E F rest (i + 4) out
     }"

definition save_obj_ee ::
  "'d ofstream \<Rightarrow> 'd matrix \<Rightarrow> cint matrix \<Rightarrow> cint matrix \<Rightarrow> EdgeEdgeCandidate list
   \<Rightarrow> 'd ofstream option" where
  "save_obj_ee out V E F candidates =
     save_obj_ee_loop V E F candidates 1 (put (Object ''EE'') out)"

text \<open>The same for face-vertex candidates.\<close>

fun save_obj_fv_loop ::
  "'d matrix \<Rightarrow> cint matrix \<Rightarrow> cint matrix \<Rightarrow> FaceVertexCandidate list \<Rightarrow> int
   \<Rightarrow> 'd ofstream \<Rightarrow> 'd ofstream option" where
  "save_obj_fv_loop V E F [] i out = Some out"
| "save_obj_fv_loop V E F (fv_candidate # rest) i out =
     do {
       a \<leftarrow> coeff F (sint (fv_face_index fv_candidate)) 0;
       r \<leftarrow> row V (sint a);
       let out = put (Vertex r) out;
       b \<leftarrow> coeff F (sint (fv_face_index fv_candidate)) 1;
       r \<leftarrow> row V (sint b);
       let out = put (Vertex r) out;
       c \<leftarrow> coeff F (sint (fv_face_index fv_candidate)) 2;
       r \<leftarrow> row V (sint c);
       let out = put (Vertex r) out;
       r \<leftarrow> row V (sint (fv_vertex_index fv_candidate));
       let out = put (Vertex r) out;
       let out = put (Face i (i + 1) (i + 2)) out;
       save_obj_fv_loop V E F rest (i + 4) out
     }"

definition save_obj_fv ::
  "'d ofstream \<Rightarrow> 'd matrix \<Rightarrow> cint matrix \<Rightarrow> cint matrix \<Rightarrow> FaceVertexCandidate list
   \<Rightarrow> 'd ofstream option" where
  "save_obj_fv out V E F candidates =
     save_obj_fv_loop V E F candidates 1 (put (Object ''FV'') out)"

text \<open>The same for edge-face candidates.\<close>

fun save_obj_ef_loop ::
  "'d matrix \<Rightarrow> cint matrix \<Rightarrow> cint matrix \<Rightarrow> EdgeFaceCandidate list \<Rightarrow> int
   \<Rightarrow> 'd ofstream \<Rightarrow> 'd ofstream option" where
  "save_obj_ef_loop V E F [] i out = Some out"
| "save_obj_ef_loop V E F (ef_candidate # rest) i out =
     do {
       a \<leftarrow> coeff E (sint (ef_edge_index ef_candidate)) 0;
       r \<leftarrow> row V (sint a);
       let out = put (Vertex r) out;
       b \<leftarrow> coeff E (sint (ef_edge_index ef_candidate)) 1;
       r \<leftarrow> row V (sint b);
       let out = put (Vertex r) out;
       c \<leftarrow> coeff F (sint (ef_face_index ef_candidate)) 0;
       r \<leftarrow> row V (sint c);
       let out = put (Vertex r) out;
       d \<leftarrow> coeff F (sint (ef_face_index ef_candidate)) 1;
       r \<leftarrow> row V (sint d);
       let out = put (Vertex r) out;
       e \<leftarrow> coeff F (sint (ef_face_index ef_candidate)) 2;
       r \<leftarrow> row V (sint e);
       let out = put (Vertex r) out;
       let out = put (Line i (i + 1)) out;
       let out = put (Face (i + 2) (i + 3) (i + 4)) out;
       save_obj_ef_loop V E F rest (i + 5) out
     }"

definition save_obj_ef ::
  "'d ofstream \<Rightarrow> 'd matrix \<Rightarrow> cint matrix \<Rightarrow> cint matrix \<Rightarrow> EdgeFaceCandidate list
   \<Rightarrow> 'd ofstream option" where
  "save_obj_ef out V E F candidates =
     save_obj_ef_loop V E F candidates 1 (put (Object ''EF'') out)"

text \<open>
  \<^verbatim>\<open>Candidates::save_obj\<close>: the result is \<open>None\<close> when a matrix lookup fails, and
  otherwise the value returned together with the stream as it is when the function
  returns. The third call passes \<^verbatim>\<open>F\<close> for both index tables, as the source does.
\<close>

definition Candidates_save_obj ::
  "'a Candidates_scheme \<Rightarrow> filesystem \<Rightarrow> string \<Rightarrow> 'd matrix \<Rightarrow> cint matrix \<Rightarrow> cint matrix
   \<Rightarrow> (bool \<times> 'd ofstream) option" where
  "Candidates_save_obj this fs filename V E F =
     (let obj = ofstream_open fs filename in
      if \<not> is_open obj then Some (False, obj)
      else do {
        obj \<leftarrow> save_obj_ev obj V E F (ev_candidates this);
        obj \<leftarrow> save_obj_ee obj V E F (ee_candidates this);
        obj \<leftarrow> save_obj_fv obj V F F (fv_candidates this);
        Some (True, obj)
      })"

text \<open>Reading a written file: the names of its objects in order, and the number of its
  vertex records.\<close>

fun object_names :: "'d obj_record list \<Rightarrow> string list" where
  "object_names [] = []"
| "object_names (Object name # rs) = name # object_names rs"
| "object_names (_ # rs) = object_names rs"

fun vertex_count :: "'d obj_record list \<Rightarrow> nat" where
  "vertex_count [] = 0"
| "vertex_count (Vertex _ # rs) = Suc (vertex_count rs)"
| "vertex_count (_ # rs) = vertex_count rs"

text \<open>
  The property the specification asks of connectivity records, read off a file: OBJ
  numbers the vertices of a file from 1 in the order they appear, whatever object they
  are in. A candidate is a run of vertex records followed by its connectivity records.
  \<open>refers_own n s g rs\<close> scans \<open>rs\<close> with \<open>n\<close> vertices seen so far in the file, of which
  the first \<open>s\<close> came before the current candidate; \<open>g\<close> says that the next vertex starts
  a new candidate. Every index of a connectivity record must be one of the numbers
  \<open>s + 1, \<dots>, n\<close>.
\<close>

definition own_vertex :: "nat \<Rightarrow> nat \<Rightarrow> int \<Rightarrow> bool" where
  "own_vertex n s i = (int s < i \<and> i \<le> int n)"

fun refers_own :: "nat \<Rightarrow> nat \<Rightarrow> bool \<Rightarrow> 'd obj_record list \<Rightarrow> bool" where
  "refers_own n s g [] = True"
| "refers_own n s g (Object name # rs) = refers_own n s True rs"
| "refers_own n s g (Vertex r # rs) = refers_own (Suc n) (if g then n else s) False rs"
| "refers_own n s g (Line a b # rs) =
     (own_vertex n s a \<and> own_vertex n s b \<and> refers_own n s True rs)"
| "refers_own n s g (Face a b c # rs) =
     (own_vertex n s a \<and> own_vertex n s b \<and> own_vertex n s c \<and> refers_own n s True rs)"

text \<open>
  A stream that has failed, or will have failed once \<open>k\<close> more records were sent to
  it.
\<close>

definition fails_within :: "nat \<Rightarrow> 'd ofstream \<Rightarrow> bool" where
  "fails_within k out = (badbit out \<or> room out < k)"

text \<open>
  The precondition of the writer on its input: every index of every candidate of the
  container is inside its table. The positions matrix stands for both time steps in
  \<open>vertex_ok\<close> and \<open>element_ok\<close>. \<open>content_size\<close> is the number of records the
  writer sends for a container: three headers, four records per EV candidate, six per EE
  candidate and five per FV candidate.
\<close>

definition candidates_in_range ::
  "'a Candidates_scheme \<Rightarrow> 'd matrix \<Rightarrow> cint matrix \<Rightarrow> cint matrix \<Rightarrow> bool" where
  "candidates_in_range this V E F =
     (list_all (\<lambda>x. vertex_ok V V (sint (ev_vertex_index x))
                   \<and> element_ok V V E 2 (sint (ev_edge_index x))) (ev_candidates this)
      \<and> list_all (\<lambda>x. element_ok V V E 2 (sint (edge0_index x))
                   \<and> element_ok V V E 2 (sint (edge1_index x))) (ee_candidates this)
      \<and> list_all (\<lambda>x. vertex_ok V V (sint (fv_vertex_index x))
                   \<and> element_ok V V F 3 (sint (fv_face_index x))) (fv_candidates this))"

definition content_size :: "'a Candidates_scheme \<Rightarrow> nat" where
  "content_size this =
     3 + 4 * length (ev_candidates this) + 6 * length (ee_candidates this)
     + 5 * length (fv_candidates this)"

section \<open>Equality and order of the candidates\<close>

lemma sint_long_eq_iff: "sint (a :: long) = sint b \<longleftrightarrow> a = b"
  by (auto intro: signed_word_eqI)

lemma lex_long_exactly_one:
  fixes a0 a1 b0 b1 :: long
  shows "exactly_one (if a0 = b0 then a1 <s b1 else a0 <s b0)
           (if b0 = a0 then b1 <s a1 else b0 <s a0) (a0 = b0 \<and> a1 = b1)"
proof (cases "a0 = b0")
  case True
  then show ?thesis
    using signed.less_linear [of a1 b1] signed.less_asym [of a1 b1]
    by (auto simp: exactly_one_def)
next
  case False
  then show ?thesis
    using signed.less_linear [of a0 b0] signed.less_asym [of a0 b0]
    by (auto simp: exactly_one_def)
qed

lemma lex_long_trans:
  fixes a0 a1 b0 b1 c0 c1 :: long
  assumes "if a0 = b0 then a1 <s b1 else a0 <s b0"
    and "if b0 = c0 then b1 <s c1 else b0 <s c0"
  shows "if a0 = c0 then a1 <s c1 else a0 <s c0"
  using assms signed.less_trans [of a0 b0 c0] signed.less_trans [of a1 b1 c1]
    signed.less_asym [of a0 b0]
  by (auto split: if_splits)

lemma lex_long_irrefl:
  fixes a0 a1 :: long
  shows "\<not> (if a0 = a0 then a1 <s a1 else a0 <s a0)"
  by simp

lemma VertexVertexCandidate_order:
  "exactly_one (VertexVertexCandidate_less a b) (VertexVertexCandidate_less b a)
     (VertexVertexCandidate_eq a b)"
  "VertexVertexCandidate_less a b \<Longrightarrow> VertexVertexCandidate_less b c
     \<Longrightarrow> VertexVertexCandidate_less a c"
  "\<not> VertexVertexCandidate_less a a"
  unfolding VertexVertexCandidate_less_def VertexVertexCandidate_eq_def
  by (rule lex_long_exactly_one, erule (1) lex_long_trans, rule lex_long_irrefl)

lemma EdgeVertexCandidate_order:
  "exactly_one (EdgeVertexCandidate_less a b) (EdgeVertexCandidate_less b a)
     (EdgeVertexCandidate_eq a b)"
  "EdgeVertexCandidate_less a b \<Longrightarrow> EdgeVertexCandidate_less b c
     \<Longrightarrow> EdgeVertexCandidate_less a c"
  "\<not> EdgeVertexCandidate_less a a"
  unfolding EdgeVertexCandidate_less_def EdgeVertexCandidate_eq_def
  by (rule lex_long_exactly_one, erule (1) lex_long_trans, rule lex_long_irrefl)

lemma EdgeFaceCandidate_order:
  "exactly_one (EdgeFaceCandidate_less a b) (EdgeFaceCandidate_less b a)
     (EdgeFaceCandidate_eq a b)"
  "EdgeFaceCandidate_less a b \<Longrightarrow> EdgeFaceCandidate_less b c
     \<Longrightarrow> EdgeFaceCandidate_less a c"
  "\<not> EdgeFaceCandidate_less a a"
  unfolding EdgeFaceCandidate_less_def EdgeFaceCandidate_eq_def
  by (rule lex_long_exactly_one, erule (1) lex_long_trans, rule lex_long_irrefl)

lemma FaceVertexCandidate_order:
  "exactly_one (FaceVertexCandidate_less a b) (FaceVertexCandidate_less b a)
     (FaceVertexCandidate_eq a b)"
  "FaceVertexCandidate_less a b \<Longrightarrow> FaceVertexCandidate_less b c
     \<Longrightarrow> FaceVertexCandidate_less a c"
  "\<not> FaceVertexCandidate_less a a"
  unfolding FaceVertexCandidate_less_def FaceVertexCandidate_eq_def
  by (rule lex_long_exactly_one, erule (1) lex_long_trans, rule lex_long_irrefl)

text \<open>The edge-edge operators, read through the key (smaller index, larger index).\<close>

lemma std_min_sint: "sint (std_min a b) = min (sint a) (sint b)"
  by (auto simp: std_min_def word_sless_alt)

lemma std_max_sint: "sint (std_max a b) = max (sint a) (sint b)"
  by (auto simp: std_max_def word_sless_alt)

lemma EdgeEdgeCandidate_less_key:
  "EdgeEdgeCandidate_less x y \<longleftrightarrow> lex_less (ee_min_max_key x) (ee_min_max_key y)"
  unfolding EdgeEdgeCandidate_less_def lex_less_def ee_min_max_key_def Let_def
  by (simp add: word_sless_alt std_min_sint std_max_sint flip: sint_long_eq_iff) linarith

lemma EdgeEdgeCandidate_eq_key:
  "EdgeEdgeCandidate_eq x y \<longleftrightarrow> ee_min_max_key x = ee_min_max_key y"
  unfolding EdgeEdgeCandidate_eq_def ee_min_max_key_def
  by (auto simp: min_def max_def sint_long_eq_iff split: if_splits)

lemma ee_min_max_key_swap:
  "ee_min_max_key (EdgeEdgeCandidate b a) = ee_min_max_key (EdgeEdgeCandidate a b)"
  by (simp add: ee_min_max_key_def min.commute max.commute)

lemma lex_less_exactly_one: "exactly_one (lex_less p q) (lex_less q p) (p = q)"
  by (cases p; cases q) (auto simp: lex_less_def exactly_one_def)

lemma lex_less_trans: "lex_less p q \<Longrightarrow> lex_less q r \<Longrightarrow> lex_less p r"
  by (auto simp: lex_less_def)

lemma EdgeEdgeCandidate_order:
  "exactly_one (EdgeEdgeCandidate_less a b) (EdgeEdgeCandidate_less b a)
     (EdgeEdgeCandidate_eq a b)"
  "EdgeEdgeCandidate_less a b \<Longrightarrow> EdgeEdgeCandidate_less b c
     \<Longrightarrow> EdgeEdgeCandidate_less a c"
  "\<not> EdgeEdgeCandidate_less a a"
  unfolding EdgeEdgeCandidate_less_key EdgeEdgeCandidate_eq_key
  by (rule lex_less_exactly_one, erule (1) lex_less_trans, simp add: lex_less_def)

text \<open>
  C2, as the code has it. For every pair of vertex indices \<open>(a, b)\<close> the constructor
  stores \<open>v0 = a\<close> and \<open>v1 = b\<close> as given, without normalizing. Equality and order
  compare the stored members as they are: two vertex-vertex candidates compare equal
  exactly when both members agree, and one is strictly less than the other exactly when
  its pair \<open>(v0, v1)\<close> is lexicographically smaller. Hence \<open>VV(a, b)\<close> compares equal
  to \<open>VV(b, a)\<close> exactly when \<open>a = b\<close>, and \<open>VV(a, b)\<close> is strictly less than
  \<open>VV(b, a)\<close> exactly when \<open>a < b\<close>.
\<close>

theorem VertexVertexCandidate_stored_as_given:
  "vertex0_index (VertexVertexCandidate a b) = a
   \<and> vertex1_index (VertexVertexCandidate a b) = b
   \<and> (VertexVertexCandidate_eq x y
        \<longleftrightarrow> vertex0_index x = vertex0_index y \<and> vertex1_index x = vertex1_index y)
   \<and> (VertexVertexCandidate_eq x y \<longleftrightarrow> x = y)
   \<and> (VertexVertexCandidate_less x y
        \<longleftrightarrow> lex_less (sint (vertex0_index x), sint (vertex1_index x))
              (sint (vertex0_index y), sint (vertex1_index y)))
   \<and> (VertexVertexCandidate_eq (VertexVertexCandidate a b) (VertexVertexCandidate b a)
        \<longleftrightarrow> a = b)
   \<and> (VertexVertexCandidate_less (VertexVertexCandidate a b) (VertexVertexCandidate b a)
        \<longleftrightarrow> a <s b)"
proof -
  have fields: "VertexVertexCandidate_eq x y
        \<longleftrightarrow> vertex0_index x = vertex0_index y \<and> vertex1_index x = vertex1_index y"
    by (simp add: VertexVertexCandidate_eq_def)
  have eq: "VertexVertexCandidate_eq x y \<longleftrightarrow> x = y"
    by (cases x; cases y) (simp add: VertexVertexCandidate_eq_def)
  have less: "VertexVertexCandidate_less x y
        \<longleftrightarrow> lex_less (sint (vertex0_index x), sint (vertex1_index x))
              (sint (vertex0_index y), sint (vertex1_index y))"
    by (auto simp: VertexVertexCandidate_less_def lex_less_def word_sless_alt
        sint_long_eq_iff)
  have swap_eq: "VertexVertexCandidate_eq (VertexVertexCandidate a b)
        (VertexVertexCandidate b a) \<longleftrightarrow> a = b"
    by (auto simp: VertexVertexCandidate_eq_def)
  have swap_less: "VertexVertexCandidate_less (VertexVertexCandidate a b)
        (VertexVertexCandidate b a) \<longleftrightarrow> a <s b"
    by (auto simp: VertexVertexCandidate_less_def)
  show ?thesis
    by (intro conjI fields eq less swap_eq swap_less) simp_all
qed

text \<open>
  C2 as stated fails at \<open>(a, b) = (2, 1)\<close>: \<open>VV(2, 1)\<close> keeps \<open>v0 = 2 > v1 = 1\<close>, it
  does not compare equal to \<open>VV(1, 2)\<close>, and \<open>VV(1, 2)\<close> is strictly less than it.
\<close>

theorem VertexVertexCandidate_swap_counterexample:
  "sint (vertex1_index (VertexVertexCandidate 2 1))
     < sint (vertex0_index (VertexVertexCandidate 2 1))
   \<and> \<not> VertexVertexCandidate_eq (VertexVertexCandidate 2 1) (VertexVertexCandidate 1 2)
   \<and> VertexVertexCandidate_less (VertexVertexCandidate 1 2) (VertexVertexCandidate 2 1)"
  by (simp add: VertexVertexCandidate_eq_def VertexVertexCandidate_less_def word_sless_alt)

text \<open>
  C3. For every pair of edge indices \<open>(a, b)\<close>, \<open>EE(a, b)\<close> and \<open>EE(b, a)\<close> compare
  equal; the strict order on edge-edge candidates is the lexicographic order on
  \<open>(min(e0, e1), max(e0, e1))\<close>; and swapping the two indices of either operand does not
  change the outcome of the comparison.
\<close>

theorem EdgeEdgeCandidate_order_symmetric:
  "EdgeEdgeCandidate_eq (EdgeEdgeCandidate a b) (EdgeEdgeCandidate b a)
   \<and> (EdgeEdgeCandidate_less x y
        \<longleftrightarrow> lex_less (ee_min_max_key x) (ee_min_max_key y))
   \<and> (EdgeEdgeCandidate_less (EdgeEdgeCandidate b a) y
        \<longleftrightarrow> EdgeEdgeCandidate_less (EdgeEdgeCandidate a b) y)
   \<and> (EdgeEdgeCandidate_less x (EdgeEdgeCandidate b a)
        \<longleftrightarrow> EdgeEdgeCandidate_less x (EdgeEdgeCandidate a b))"
  by (simp add: EdgeEdgeCandidate_eq_def EdgeEdgeCandidate_less_key ee_min_max_key_swap)

text \<open>
  C9. For each of the five candidate kinds and any candidates \<open>a\<close>, \<open>b\<close>, \<open>c\<close> of that
  kind, whatever 64-bit values their indices hold (negative sentinels and indices beyond
  any table included): exactly one of \<open>a < b\<close>, \<open>b < a\<close>, \<open>a == b\<close> holds, \<open><\<close> is
  transitive, and \<open><\<close> is irreflexive.
\<close>

theorem candidate_orders_strict_total:
  "exactly_one (VertexVertexCandidate_less vv1 vv2) (VertexVertexCandidate_less vv2 vv1)
     (VertexVertexCandidate_eq vv1 vv2)
   \<and> (VertexVertexCandidate_less vv1 vv2 \<longrightarrow> VertexVertexCandidate_less vv2 vv3
        \<longrightarrow> VertexVertexCandidate_less vv1 vv3)
   \<and> \<not> VertexVertexCandidate_less vv1 vv1
   \<and> exactly_one (EdgeVertexCandidate_less ev1 ev2) (EdgeVertexCandidate_less ev2 ev1)
        (EdgeVertexCandidate_eq ev1 ev2)
   \<and> (EdgeVertexCandidate_less ev1 ev2 \<longrightarrow> EdgeVertexCandidate_less ev2 ev3
        \<longrightarrow> EdgeVertexCandidate_less ev1 ev3)
   \<and> \<not> EdgeVertexCandidate_less ev1 ev1
   \<and> exactly_one (EdgeEdgeCandidate_less ee1 ee2) (EdgeEdgeCandidate_less ee2 ee1)
        (EdgeEdgeCandidate_eq ee1 ee2)
   \<and> (EdgeEdgeCandidate_less ee1 ee2 \<longrightarrow> EdgeEdgeCandidate_less ee2 ee3
        \<longrightarrow> EdgeEdgeCandidate_less ee1 ee3)
   \<and> \<not> EdgeEdgeCandidate_less ee1 ee1
   \<and> exactly_one (EdgeFaceCandidate_less ef1 ef2) (EdgeFaceCandidate_less ef2 ef1)
        (EdgeFaceCandidate_eq ef1 ef2)
   \<and> (EdgeFaceCandidate_less ef1 ef2 \<longrightarrow> EdgeFaceCandidate_less ef2 ef3
        \<longrightarrow> EdgeFaceCandidate_less ef1 ef3)
   \<and> \<not> EdgeFaceCandidate_less ef1 ef1
   \<and> exactly_one (FaceVertexCandidate_less fv1 fv2) (FaceVertexCandidate_less fv2 fv1)
        (FaceVertexCandidate_eq fv1 fv2)
   \<and> (FaceVertexCandidate_less fv1 fv2 \<longrightarrow> FaceVertexCandidate_less fv2 fv3
        \<longrightarrow> FaceVertexCandidate_less fv1 fv3)
   \<and> \<not> FaceVertexCandidate_less fv1 fv1"
  using VertexVertexCandidate_order(1) [of vv1 vv2] VertexVertexCandidate_order(2) [of vv1 vv2 vv3]
    VertexVertexCandidate_order(3) [of vv1]
    EdgeVertexCandidate_order(1) [of ev1 ev2] EdgeVertexCandidate_order(2) [of ev1 ev2 ev3]
    EdgeVertexCandidate_order(3) [of ev1]
    EdgeEdgeCandidate_order(1) [of ee1 ee2] EdgeEdgeCandidate_order(2) [of ee1 ee2 ee3]
    EdgeEdgeCandidate_order(3) [of ee1]
    EdgeFaceCandidate_order(1) [of ef1 ef2] EdgeFaceCandidate_order(2) [of ef1 ef2 ef3]
    EdgeFaceCandidate_order(3) [of ef1]
    FaceVertexCandidate_order(1) [of fv1 fv2] FaceVertexCandidate_order(2) [of fv1 fv2 fv3]
    FaceVertexCandidate_order(3) [of fv1]
  by blast

theorem candidate_orders_strict_total_witness:
  "VertexVertexCandidate_less (VertexVertexCandidate (- 1) 5) (VertexVertexCandidate 0 3)
   \<and> VertexVertexCandidate_less (VertexVertexCandidate 0 3) (VertexVertexCandidate 0 4)
   \<and> VertexVertexCandidate_less (VertexVertexCandidate (- 1) 5) (VertexVertexCandidate 0 4)
   \<and> EdgeVertexCandidate_less (EdgeVertexCandidate (- 1) 5) (EdgeVertexCandidate 0 3)
   \<and> EdgeVertexCandidate_less (EdgeVertexCandidate 0 3) (EdgeVertexCandidate 0 4)
   \<and> EdgeVertexCandidate_less (EdgeVertexCandidate (- 1) 5) (EdgeVertexCandidate 0 4)
   \<and> EdgeEdgeCandidate_less (EdgeEdgeCandidate 7 (- 1)) (EdgeEdgeCandidate 2 0)
   \<and> EdgeEdgeCandidate_less (EdgeEdgeCandidate 2 0) (EdgeEdgeCandidate 1 2)
   \<and> EdgeEdgeCandidate_less (EdgeEdgeCandidate 7 (- 1)) (EdgeEdgeCandidate 1 2)
   \<and> EdgeFaceCandidate_less (EdgeFaceCandidate (- 1) 5) (EdgeFaceCandidate 0 3)
   \<and> EdgeFaceCandidate_less (EdgeFaceCandidate 0 3) (EdgeFaceCandidate 0 4)
   \<and> EdgeFaceCandidate_less (EdgeFaceCandidate (- 1) 5) (EdgeFaceCandidate 0 4)
   \<and> FaceVertexCandidate_less (FaceVertexCandidate (- 1) 5) (FaceVertexCandidate 0 3)
   \<and> FaceVertexCandidate_less (FaceVertexCandidate 0 3) (FaceVertexCandidate 0 4)
   \<and> FaceVertexCandidate_less (FaceVertexCandidate (- 1) 5) (FaceVertexCandidate 0 4)
   \<and> \<not> EdgeEdgeCandidate_less (EdgeEdgeCandidate 2 0) (EdgeEdgeCandidate 7 (- 1))
   \<and> \<not> EdgeEdgeCandidate_eq (EdgeEdgeCandidate 7 (- 1)) (EdgeEdgeCandidate 2 0)"
  using candidate_orders_strict_total
    [where ?vv1.0 = "VertexVertexCandidate (- 1) 5" and ?vv2.0 = "VertexVertexCandidate 0 3"
       and ?vv3.0 = "VertexVertexCandidate 0 4"
       and ?ev1.0 = "EdgeVertexCandidate (- 1) 5" and ?ev2.0 = "EdgeVertexCandidate 0 3"
       and ?ev3.0 = "EdgeVertexCandidate 0 4"
       and ?ee1.0 = "EdgeEdgeCandidate 7 (- 1)" and ?ee2.0 = "EdgeEdgeCandidate 2 0"
       and ?ee3.0 = "EdgeEdgeCandidate 1 2"
       and ?ef1.0 = "EdgeFaceCandidate (- 1) 5" and ?ef2.0 = "EdgeFaceCandidate 0 3"
       and ?ef3.0 = "EdgeFaceCandidate 0 4"
       and ?fv1.0 = "FaceVertexCandidate (- 1) 5" and ?fv2.0 = "FaceVertexCandidate 0 3"
       and ?fv3.0 = "FaceVertexCandidate 0 4"]
  by (simp add: VertexVertexCandidate_less_def EdgeVertexCandidate_less_def
      EdgeEdgeCandidate_less_def EdgeEdgeCandidate_eq_def EdgeFaceCandidate_less_def
      FaceVertexCandidate_less_def std_min_def std_max_def word_sless_alt exactly_one_def)

section \<open>The container\<close>

lemma Candidates_index_ev:
  assumes "i < length (ev_candidates c)"
  shows "Candidates_index c i = Inr (ev_ref i)"
  using assms by (simp add: Candidates_index_def)

lemma Candidates_index_ee:
  assumes "length (ev_candidates c) \<le> i"
    and "i < length (ev_candidates c) + length (ee_candidates c)"
  shows "Candidates_index c i = Inr (ee_ref (i - length (ev_candidates c)))"
proof -
  from assms have "\<not> i < length (ev_candidates c)"
    and "i - length (ev_candidates c) < length (ee_candidates c)"
    by arith+
  then show ?thesis by (simp add: Candidates_index_def Let_def)
qed

lemma Candidates_index_fv:
  assumes "length (ev_candidates c) + length (ee_candidates c) \<le> i"
    and "i < Candidates_size c"
  shows "Candidates_index c i
           = Inr (fv_ref (i - length (ev_candidates c) - length (ee_candidates c)))"
proof -
  from assms have "\<not> i < length (ev_candidates c)"
    and "\<not> i - length (ev_candidates c) < length (ee_candidates c)"
    and "i - length (ev_candidates c) - length (ee_candidates c) < length (fv_candidates c)"
    unfolding Candidates_size_def by arith+
  then show ?thesis by (simp add: Candidates_index_def Let_def)
qed

lemma Candidates_index_throws:
  "isl (Candidates_index c i) \<longleftrightarrow> Candidates_size c \<le> i"
  unfolding Candidates_index_def Candidates_size_def Let_def
  by (simp; arith)

lemma Candidates_index_error:
  assumes "Candidates_size c \<le> i"
  shows "Candidates_index c i = Inl (out_of_range ''Constraint index is out of range!'')"
proof -
  from assms have "\<not> i < length (ev_candidates c)"
    and "\<not> i - length (ev_candidates c) < length (ee_candidates c)"
    and "\<not> i - length (ev_candidates c) - length (ee_candidates c)
           < length (fv_candidates c)"
    unfolding Candidates_size_def by arith+
  then show ?thesis by (simp add: Candidates_index_def Let_def)
qed

lemma Candidates_index_const_eq: "Candidates_index_const c i = Candidates_index c i"
  by (simp only: Candidates_index_const_def Candidates_index_def)

text \<open>
  C1. For every container \<open>c\<close> and flat index \<open>i\<close>, \<^verbatim>\<open>operator[]\<close> (either overload)
  returns a reference to the \<open>i\<close>-th EV candidate when \<open>i < |ev|\<close>, to the
  \<open>(i - |ev|)\<close>-th EE candidate when \<open>|ev| \<le> i < |ev| + |ee|\<close>, to the
  \<open>(i - |ev| - |ee|)\<close>-th FV candidate when \<open>|ev| + |ee| \<le> i < size()\<close>, and throws
  \<^verbatim>\<open>std::out_of_range\<close> when \<open>i \<ge> size()\<close>.
\<close>

theorem Candidates_index_contract:
  "(i < length (ev_candidates c) \<longrightarrow>
      Candidates_index c i = Inr (ev_ref i)
      \<and> Candidates_index_const c i = Inr (ev_ref i)
      \<and> deref c (ev_ref i) = EV (ev_candidates c ! i))
   \<and> (length (ev_candidates c) \<le> i
        \<and> i < length (ev_candidates c) + length (ee_candidates c) \<longrightarrow>
      Candidates_index c i = Inr (ee_ref (i - length (ev_candidates c)))
      \<and> Candidates_index_const c i = Inr (ee_ref (i - length (ev_candidates c)))
      \<and> deref c (ee_ref (i - length (ev_candidates c)))
          = EE (ee_candidates c ! (i - length (ev_candidates c))))
   \<and> (length (ev_candidates c) + length (ee_candidates c) \<le> i
        \<and> i < Candidates_size c \<longrightarrow>
      Candidates_index c i
        = Inr (fv_ref (i - length (ev_candidates c) - length (ee_candidates c)))
      \<and> Candidates_index_const c i
        = Inr (fv_ref (i - length (ev_candidates c) - length (ee_candidates c)))
      \<and> deref c (fv_ref (i - length (ev_candidates c) - length (ee_candidates c)))
          = FV (fv_candidates c ! (i - length (ev_candidates c) - length (ee_candidates c))))
   \<and> (Candidates_size c \<le> i \<longrightarrow>
      Candidates_index c i = Inl (out_of_range ''Constraint index is out of range!'')
      \<and> Candidates_index_const c i
          = Inl (out_of_range ''Constraint index is out of range!''))"
  by (simp add: Candidates_index_const_eq Candidates_index_ev Candidates_index_ee
      Candidates_index_fv Candidates_index_error)

text \<open>The container of scenario S5: two EV, one EE and three FV candidates.\<close>

theorem Candidates_index_contract_witness:
  "Candidates_size
     \<lparr>ev_candidates = [EdgeVertexCandidate 0 2, EdgeVertexCandidate 1 0],
      ee_candidates = [EdgeEdgeCandidate 0 1],
      fv_candidates = [FaceVertexCandidate 0 3, FaceVertexCandidate 1 0,
                       FaceVertexCandidate 1 4]\<rparr> = 6
   \<and> Candidates_index
     \<lparr>ev_candidates = [EdgeVertexCandidate 0 2, EdgeVertexCandidate 1 0],
      ee_candidates = [EdgeEdgeCandidate 0 1],
      fv_candidates = [FaceVertexCandidate 0 3, FaceVertexCandidate 1 0,
                       FaceVertexCandidate 1 4]\<rparr> 1 = Inr (ev_ref 1)
   \<and> Candidates_index
     \<lparr>ev_candidates = [EdgeVertexCandidate 0 2, EdgeVertexCandidate 1 0],
      ee_candidates = [EdgeEdgeCandidate 0 1],
      fv_candidates = [FaceVertexCandidate 0 3, FaceVertexCandidate 1 0,
                       FaceVertexCandidate 1 4]\<rparr> 2 = Inr (ee_ref 0)
   \<and> Candidates_index
     \<lparr>ev_candidates = [EdgeVertexCandidate 0 2, EdgeVertexCandidate 1 0],
      ee_candidates = [EdgeEdgeCandidate 0 1],
      fv_candidates = [FaceVertexCandidate 0 3, FaceVertexCandidate 1 0,
                       FaceVertexCandidate 1 4]\<rparr> 5 = Inr (fv_ref 2)
   \<and> deref
     \<lparr>ev_candidates = [EdgeVertexCandidate 0 2, EdgeVertexCandidate 1 0],
      ee_candidates = [EdgeEdgeCandidate 0 1],
      fv_candidates = [FaceVertexCandidate 0 3, FaceVertexCandidate 1 0,
                       FaceVertexCandidate 1 4]\<rparr> (fv_ref 2) = FV (FaceVertexCandidate 1 4)
   \<and> Candidates_index
     \<lparr>ev_candidates = [EdgeVertexCandidate 0 2, EdgeVertexCandidate 1 0],
      ee_candidates = [EdgeEdgeCandidate 0 1],
      fv_candidates = [FaceVertexCandidate 0 3, FaceVertexCandidate 1 0,
                       FaceVertexCandidate 1 4]\<rparr> 6
       = Inl (out_of_range ''Constraint index is out of range!'')"
  using Candidates_index_contract [of 1
      "\<lparr>ev_candidates = [EdgeVertexCandidate 0 2, EdgeVertexCandidate 1 0],
        ee_candidates = [EdgeEdgeCandidate 0 1],
        fv_candidates = [FaceVertexCandidate 0 3, FaceVertexCandidate 1 0,
                         FaceVertexCandidate 1 4]\<rparr>"]
    Candidates_index_contract [of 2
      "\<lparr>ev_candidates = [EdgeVertexCandidate 0 2, EdgeVertexCandidate 1 0],
        ee_candidates = [EdgeEdgeCandidate 0 1],
        fv_candidates = [FaceVertexCandidate 0 3, FaceVertexCandidate 1 0,
                         FaceVertexCandidate 1 4]\<rparr>"]
    Candidates_index_contract [of 5
      "\<lparr>ev_candidates = [EdgeVertexCandidate 0 2, EdgeVertexCandidate 1 0],
        ee_candidates = [EdgeEdgeCandidate 0 1],
        fv_candidates = [FaceVertexCandidate 0 3, FaceVertexCandidate 1 0,
                         FaceVertexCandidate 1 4]\<rparr>"]
    Candidates_index_contract [of 6
      "\<lparr>ev_candidates = [EdgeVertexCandidate 0 2, EdgeVertexCandidate 1 0],
        ee_candidates = [EdgeEdgeCandidate 0 1],
        fv_candidates = [FaceVertexCandidate 0 3, FaceVertexCandidate 1 0,
                         FaceVertexCandidate 1 4]\<rparr>"]
  by (simp add: Candidates_size_def)

text \<open>
  C6. For every container, \<^verbatim>\<open>size()\<close> is \<open>|ev| + |ee| + |fv|\<close>; \<^verbatim>\<open>empty()\<close> holds
  exactly when the three vectors are empty, that is when \<^verbatim>\<open>size()\<close> is 0; and
  \<^verbatim>\<open>clear()\<close> empties the three vectors and leaves everything else the container
  holds as it was.
\<close>

theorem Candidates_size_empty_clear:
  "Candidates_size c
     = length (ev_candidates c) + length (ee_candidates c) + length (fv_candidates c)
   \<and> (Candidates_empty c
        \<longleftrightarrow> ev_candidates c = [] \<and> ee_candidates c = [] \<and> fv_candidates c = [])
   \<and> (Candidates_empty c \<longleftrightarrow> Candidates_size c = 0)
   \<and> ev_candidates (Candidates_clear c) = []
   \<and> ee_candidates (Candidates_clear c) = []
   \<and> fv_candidates (Candidates_clear c) = []
   \<and> Candidates.more (Candidates_clear c) = Candidates.more c
   \<and> Candidates_empty (Candidates_clear c)
   \<and> Candidates_size (Candidates_clear c) = 0"
  by (simp add: Candidates_size_def Candidates_empty_def Candidates_clear_def)

text \<open>
  C10. For every container and every flat index, the const and the non-const overload
  of \<^verbatim>\<open>operator[]\<close> give the same result: the same reference (vector and position)
  where they return, the same exception where they throw; and they throw exactly for
  the indices \<open>i \<ge> size()\<close>.
\<close>

theorem Candidates_index_overloads_agree:
  "Candidates_index_const c i = Candidates_index c i
   \<and> (isl (Candidates_index c i) \<longleftrightarrow> Candidates_size c \<le> i)
   \<and> (isl (Candidates_index_const c i) \<longleftrightarrow> Candidates_size c \<le> i)"
  by (simp add: Candidates_index_const_eq Candidates_index_throws)

section \<open>CCD dispatch\<close>

lemma row_in_rows: "in_rows M i \<Longrightarrow> row M i = Some (M ! nat i)"
  by (simp add: row_def)

lemma coeff_in_rows:
  "in_rows M i \<Longrightarrow> j < length (M ! nat i) \<Longrightarrow> coeff M i j = Some (M ! nat i ! j)"
  by (simp add: coeff_def row_def)

lemma vertex_ok_row:
  assumes "vertex_ok V0 V1 (sint v)"
  shows "row V0 (sint v) = Some (vrow V0 v)" and "row V1 (sint v) = Some (vrow V1 v)"
  using assms by (simp_all add: vertex_ok_def row_in_rows vrow_def)

lemma element_ok_rows:
  assumes "element_ok V0 V1 T n (sint e)" and "k < n"
  shows "coeff T (sint e) k = Some (T ! nat (sint e) ! k)"
    and "row V0 (sint (T ! nat (sint e) ! k)) = Some (trow V0 T e k)"
    and "row V1 (sint (T ! nat (sint e) ! k)) = Some (trow V1 T e k)"
proof -
  from assms have r: "in_rows T (sint e)" and l: "k < length (T ! nat (sint e))"
    and a: "list_all (vertex_ok V0 V1) (map sint (take n (T ! nat (sint e))))"
    by (auto simp: element_ok_def)
  from r l show "coeff T (sint e) k = Some (T ! nat (sint e) ! k)"
    by (rule coeff_in_rows)
  from a assms(2) l have "vertex_ok V0 V1 (sint (T ! nat (sint e) ! k))"
    by (simp add: list_all_length)
  then show "row V0 (sint (T ! nat (sint e) ! k)) = Some (trow V0 T e k)"
    and "row V1 (sint (T ! nat (sint e) ! k)) = Some (trow V1 T e k)"
    by (simp_all add: vertex_ok_def row_in_rows trow_def)
qed

lemma EdgeVertexCandidate_ccd_rows:
  assumes "vertex_ok V0 V1 (sint (ev_vertex_index c))"
    and "element_ok V0 V1 E 2 (sint (ev_edge_index c))"
  shows "EdgeVertexCandidate_ccd point_edge_ccd c V0 V1 E F
           toi tmax tolerance max_iterations conservative_rescaling
         = Some (point_edge_ccd (vrow V0 (ev_vertex_index c))
             (trow V0 E (ev_edge_index c) 0) (trow V0 E (ev_edge_index c) 1)
             (vrow V1 (ev_vertex_index c))
             (trow V1 E (ev_edge_index c) 0) (trow V1 E (ev_edge_index c) 1)
             toi tmax tolerance max_iterations conservative_rescaling)"
  unfolding EdgeVertexCandidate_ccd_def
  by (simp add: vertex_ok_row [OF assms(1)] element_ok_rows [OF assms(2)])

lemma EdgeEdgeCandidate_ccd_rows:
  assumes "element_ok V0 V1 E 2 (sint (edge0_index c))"
    and "element_ok V0 V1 E 2 (sint (edge1_index c))"
  shows "EdgeEdgeCandidate_ccd edge_edge_ccd c V0 V1 E F
           toi tmax tolerance max_iterations conservative_rescaling
         = Some (edge_edge_ccd
             (trow V0 E (edge0_index c) 0) (trow V0 E (edge0_index c) 1)
             (trow V0 E (edge1_index c) 0) (trow V0 E (edge1_index c) 1)
             (trow V1 E (edge0_index c) 0) (trow V1 E (edge0_index c) 1)
             (trow V1 E (edge1_index c) 0) (trow V1 E (edge1_index c) 1)
             toi tmax tolerance max_iterations conservative_rescaling)"
  unfolding EdgeEdgeCandidate_ccd_def
  by (simp add: element_ok_rows [OF assms(1)] element_ok_rows [OF assms(2)])

lemma FaceVertexCandidate_ccd_rows:
  assumes "vertex_ok V0 V1 (sint (fv_vertex_index c))"
    and "element_ok V0 V1 F 3 (sint (fv_face_index c))"
  shows "FaceVertexCandidate_ccd point_triangle_ccd c V0 V1 E F
           toi tmax tolerance max_iterations conservative_rescaling
         = Some (point_triangle_ccd (vrow V0 (fv_vertex_index c))
             (trow V0 F (fv_face_index c) 0) (trow V0 F (fv_face_index c) 1)
             (trow V0 F (fv_face_index c) 2)
             (vrow V1 (fv_vertex_index c))
             (trow V1 F (fv_face_index c) 0) (trow V1 F (fv_face_index c) 1)
             (trow V1 F (fv_face_index c) 2)
             toi tmax tolerance max_iterations conservative_rescaling)"
  unfolding FaceVertexCandidate_ccd_def
  by (simp add: vertex_ok_row [OF assms(1)] element_ok_rows [OF assms(2)])

text \<open>
  C7. For a candidate whose indices are in range (its vertex is a row of \<open>V0\<close> and
  \<open>V1\<close>; its edge or face is a row of \<open>E\<close> or \<open>F\<close> with at least two or three
  columns, whose entries are rows of \<open>V0\<close> and \<open>V1\<close>), the dispatcher returns what its
  kernel returns on exactly the indexed rows: the point-edge kernel on the vertex row and
  the rows \<open>E(e,0)\<close>, \<open>E(e,1)\<close> of \<open>V0\<close> and of \<open>V1\<close>; the edge-edge kernel on the
  endpoint rows of both edges; the point-triangle kernel on the vertex row and the rows
  \<open>F(f,0)\<close>, \<open>F(f,1)\<close>, \<open>F(f,2)\<close>; with \<open>toi\<close>, \<open>tmax\<close>, \<open>tolerance\<close>,
  \<open>max_iterations\<close> and \<open>conservative_rescaling\<close> passed on as received.
\<close>

theorem ccd_dispatch_rows:
  "(vertex_ok V0 V1 (sint (ev_vertex_index ev))
      \<and> element_ok V0 V1 E 2 (sint (ev_edge_index ev)) \<longrightarrow>
    EdgeVertexCandidate_ccd point_edge_ccd ev V0 V1 E F
        toi tmax tolerance max_iterations conservative_rescaling
      = Some (point_edge_ccd (vrow V0 (ev_vertex_index ev))
          (trow V0 E (ev_edge_index ev) 0) (trow V0 E (ev_edge_index ev) 1)
          (vrow V1 (ev_vertex_index ev))
          (trow V1 E (ev_edge_index ev) 0) (trow V1 E (ev_edge_index ev) 1)
          toi tmax tolerance max_iterations conservative_rescaling))
   \<and> (element_ok V0 V1 E 2 (sint (edge0_index ee))
      \<and> element_ok V0 V1 E 2 (sint (edge1_index ee)) \<longrightarrow>
    EdgeEdgeCandidate_ccd edge_edge_ccd ee V0 V1 E F
        toi tmax tolerance max_iterations conservative_rescaling
      = Some (edge_edge_ccd
          (trow V0 E (edge0_index ee) 0) (trow V0 E (edge0_index ee) 1)
          (trow V0 E (edge1_index ee) 0) (trow V0 E (edge1_index ee) 1)
          (trow V1 E (edge0_index ee) 0) (trow V1 E (edge0_index ee) 1)
          (trow V1 E (edge1_index ee) 0) (trow V1 E (edge1_index ee) 1)
          toi tmax tolerance max_iterations conservative_rescaling))
   \<and> (vertex_ok V0 V1 (sint (fv_vertex_index fv))
      \<and> element_ok V0 V1 F 3 (sint (fv_face_index fv)) \<longrightarrow>
    FaceVertexCandidate_ccd point_triangle_ccd fv V0 V1 E F
        toi tmax tolerance max_iterations conservative_rescaling
      = Some (point_triangle_ccd (vrow V0 (fv_vertex_index fv))
          (trow V0 F (fv_face_index fv) 0) (trow V0 F (fv_face_index fv) 1)
          (trow V0 F (fv_face_index fv) 2)
          (vrow V1 (fv_vertex_index fv))
          (trow V1 F (fv_face_index fv) 0) (trow V1 F (fv_face_index fv) 1)
          (trow V1 F (fv_face_index fv) 2)
          toi tmax tolerance max_iterations conservative_rescaling))"
  by (simp add: EdgeVertexCandidate_ccd_rows EdgeEdgeCandidate_ccd_rows
      FaceVertexCandidate_ccd_rows)

text \<open>
  A triangle with its three edges and a vertex that moves through it. Each kernel here
  only reports whether it received the expected rows and iteration bound, and returns
  the sum of the four numbers it was handed.
\<close>

theorem ccd_dispatch_rows_witness:
  "vertex_ok [[0, 0, 0], [1, 0, 0], [0, 1, 0], [0, 0, 1]] [[0, 0, 0], [1, 0, 0], [0, 1, 0], [0, 0, - 1]] (sint (3 :: long))
   \<and> element_ok [[0, 0, 0], [1, 0, 0], [0, 1, 0], [0, 0, 1]] [[0, 0, 0], [1, 0, 0], [0, 1, 0], [0, 0, - 1]] [[0, 1], [1, 2], [2, 0]] 2 (sint (1 :: long))
   \<and> element_ok [[0, 0, 0], [1, 0, 0], [0, 1, 0], [0, 0, 1]] [[0, 0, 0], [1, 0, 0], [0, 1, 0], [0, 0, - 1]] [[0, 1], [1, 2], [2, 0]] 2 (sint (0 :: long))
   \<and> element_ok [[0, 0, 0], [1, 0, 0], [0, 1, 0], [0, 0, 1]] [[0, 0, 0], [1, 0, 0], [0, 1, 0], [0, 0, - 1]] [[0, 1, 2]] 3 (sint (0 :: long))
   \<and> EdgeVertexCandidate_ccd
        (\<lambda>p a b p' a' b' toi tmax tolerance max_iterations conservative_rescaling.
          ((p, a, b, p', a', b') = ([0, 0, 1], [1, 0, 0], [0, 1, 0], [0, 0, - 1], [1, 0, 0], [0, 1, 0])
           \<and> max_iterations = 10, toi + tmax + tolerance + conservative_rescaling))
        (EdgeVertexCandidate 1 3) [[0, 0, 0], [1, 0, 0], [0, 1, 0], [0, 0, 1]] [[0, 0, 0], [1, 0, 0], [0, 1, 0], [0, 0, - 1]] [[0, 1], [1, 2], [2, 0]] [[0, 1, 2]]
        (1 :: real) 2 3 10 4 = Some (True, 10)
   \<and> EdgeEdgeCandidate_ccd
        (\<lambda>a b c d a' b' c' d' toi tmax tolerance max_iterations conservative_rescaling.
          ((a, b, c, d) = ([0, 0, 0], [1, 0, 0], [1, 0, 0], [0, 1, 0])
           \<and> (a', b', c', d') = ([0, 0, 0], [1, 0, 0], [1, 0, 0], [0, 1, 0])
           \<and> max_iterations = 10, toi + tmax + tolerance + conservative_rescaling))
        (EdgeEdgeCandidate 0 1) [[0, 0, 0], [1, 0, 0], [0, 1, 0], [0, 0, 1]] [[0, 0, 0], [1, 0, 0], [0, 1, 0], [0, 0, - 1]] [[0, 1], [1, 2], [2, 0]] [[0, 1, 2]]
        (1 :: real) 2 3 10 4 = Some (True, 10)
   \<and> FaceVertexCandidate_ccd
        (\<lambda>p a b c p' a' b' c' toi tmax tolerance max_iterations conservative_rescaling.
          ((p, a, b, c) = ([0, 0, 1], [0, 0, 0], [1, 0, 0], [0, 1, 0])
           \<and> (p', a', b', c') = ([0, 0, - 1], [0, 0, 0], [1, 0, 0], [0, 1, 0])
           \<and> max_iterations = 10, toi + tmax + tolerance + conservative_rescaling))
        (FaceVertexCandidate 0 3) [[0, 0, 0], [1, 0, 0], [0, 1, 0], [0, 0, 1]] [[0, 0, 0], [1, 0, 0], [0, 1, 0], [0, 0, - 1]] [[0, 1], [1, 2], [2, 0]] [[0, 1, 2]]
        (1 :: real) 2 3 10 4 = Some (True, 10)"
  using ccd_dispatch_rows
    [where ev = "EdgeVertexCandidate 1 3" and ee = "EdgeEdgeCandidate 0 1"
       and fv = "FaceVertexCandidate 0 3"
       and ?V0.0 = "[[0, 0, 0], [1, 0, 0], [0, 1, 0], [0, 0, 1]] :: real matrix"
       and ?V1.0 = "[[0, 0, 0], [1, 0, 0], [0, 1, 0], [0, 0, - 1]]"
       and E = "[[0, 1], [1, 2], [2, 0]]" and F = "[[0, 1, 2]]"
       and point_edge_ccd = "(\<lambda>p a b p' a' b' toi tmax tolerance max_iterations conservative_rescaling.
          ((p, a, b, p', a', b') = ([0, 0, 1], [1, 0, 0], [0, 1, 0], [0, 0, - 1], [1, 0, 0], [0, 1, 0])
           \<and> max_iterations = 10, toi + tmax + tolerance + conservative_rescaling))"
       and edge_edge_ccd = "(\<lambda>a b c d a' b' c' d' toi tmax tolerance max_iterations conservative_rescaling.
          ((a, b, c, d) = ([0, 0, 0], [1, 0, 0], [1, 0, 0], [0, 1, 0])
           \<and> (a', b', c', d') = ([0, 0, 0], [1, 0, 0], [1, 0, 0], [0, 1, 0])
           \<and> max_iterations = 10, toi + tmax + tolerance + conservative_rescaling))"
       and point_triangle_ccd = "(\<lambda>p a b c p' a' b' c' toi tmax tolerance max_iterations conservative_rescaling.
          ((p, a, b, c) = ([0, 0, 1], [0, 0, 0], [1, 0, 0], [0, 1, 0])
           \<and> (p', a', b', c') = ([0, 0, - 1], [0, 0, 0], [1, 0, 0], [0, 1, 0])
           \<and> max_iterations = 10, toi + tmax + tolerance + conservative_rescaling))"
       and toi = 1 and tmax = 2 and tolerance = 3 and max_iterations = 10
       and conservative_rescaling = 4]
  by (simp add: vertex_ok_def element_ok_def in_rows_def vrow_def trow_def)

section \<open>The OBJ writer\<close>

text \<open>A run whose stream has not failed at the end wrote every record.\<close>

lemma put_good:
  "\<not> badbit (put x out) \<Longrightarrow>
     \<not> badbit out \<and> is_open out \<and> written (put x out) = written out @ [x]"
  by (auto simp: put_def split: if_splits)

lemma object_names_append: "object_names (xs @ ys) = object_names xs @ object_names ys"
  by (induction xs rule: object_names.induct) auto

lemma vertex_count_append: "vertex_count (xs @ ys) = vertex_count xs + vertex_count ys"
  by (induction xs rule: vertex_count.induct) auto

lemma put_Object:
  assumes "\<not> badbit (put (Object name) out)"
  shows "\<not> badbit out
    \<and> object_names (written (put (Object name) out)) = object_names (written out) @ [name]
    \<and> vertex_count (written (put (Object name) out)) = vertex_count (written out)"
  using put_good [OF assms] by (simp add: object_names_append vertex_count_append)

lemma put_Vertex:
  assumes "\<not> badbit (put (Vertex r) out)"
  shows "\<not> badbit out
    \<and> object_names (written (put (Vertex r) out)) = object_names (written out)
    \<and> vertex_count (written (put (Vertex r) out)) = Suc (vertex_count (written out))"
  using put_good [OF assms] by (simp add: object_names_append vertex_count_append)

lemma put_Line:
  assumes "\<not> badbit (put (Line a b) out)"
  shows "\<not> badbit out
    \<and> object_names (written (put (Line a b) out)) = object_names (written out)
    \<and> vertex_count (written (put (Line a b) out)) = vertex_count (written out)"
  using put_good [OF assms] by (simp add: object_names_append vertex_count_append)

lemma put_Face:
  assumes "\<not> badbit (put (Face a b c) out)"
  shows "\<not> badbit out
    \<and> object_names (written (put (Face a b c) out)) = object_names (written out)
    \<and> vertex_count (written (put (Face a b c) out)) = vertex_count (written out)"
  using put_good [OF assms] by (simp add: object_names_append vertex_count_append)

lemma save_obj_ev_loop_good:
  "save_obj_ev_loop V E F cs i out = Some out' \<Longrightarrow> \<not> badbit out' \<Longrightarrow>
     \<not> badbit out \<and> object_names (written out') = object_names (written out)
     \<and> vertex_count (written out') = vertex_count (written out) + 3 * length cs"
proof (induction cs arbitrary: i out)
  case Nil
  then show ?case by simp
next
  case (Cons c cs)
  from Cons.prems(1) obtain r0 r1 r2 where
    run: "save_obj_ev_loop V E F cs (i + 3)
            (put (Line i (i + 1))
              (put (Vertex r2) (put (Vertex r1) (put (Vertex r0) out)))) = Some out'"
    by (auto simp: Let_def split: Option.bind_splits)
  from Cons.IH [OF run Cons.prems(2)] show ?case
    by (auto dest!: put_Line put_Vertex)
qed

lemma save_obj_ee_loop_good:
  "save_obj_ee_loop V E F cs i out = Some out' \<Longrightarrow> \<not> badbit out' \<Longrightarrow>
     \<not> badbit out \<and> object_names (written out') = object_names (written out)
     \<and> vertex_count (written out') = vertex_count (written out) + 4 * length cs"
proof (induction cs arbitrary: i out)
  case Nil
  then show ?case by simp
next
  case (Cons c cs)
  from Cons.prems(1) obtain r0 r1 r2 r3 where
    run: "save_obj_ee_loop V E F cs (i + 4)
            (put (Line (i + 2) (i + 3)) (put (Line (i + 0) (i + 1))
              (put (Vertex r3) (put (Vertex r2) (put (Vertex r1) (put (Vertex r0) out))))))
          = Some out'"
    by (auto simp: Let_def split: Option.bind_splits)
  from Cons.IH [OF run Cons.prems(2)] show ?case
    by (auto dest!: put_Line put_Vertex)
qed

lemma save_obj_fv_loop_good:
  "save_obj_fv_loop V E F cs i out = Some out' \<Longrightarrow> \<not> badbit out' \<Longrightarrow>
     \<not> badbit out \<and> object_names (written out') = object_names (written out)
     \<and> vertex_count (written out') = vertex_count (written out) + 4 * length cs"
proof (induction cs arbitrary: i out)
  case Nil
  then show ?case by simp
next
  case (Cons c cs)
  from Cons.prems(1) obtain r0 r1 r2 r3 where
    run: "save_obj_fv_loop V E F cs (i + 4)
            (put (Face i (i + 1) (i + 2))
              (put (Vertex r3) (put (Vertex r2) (put (Vertex r1) (put (Vertex r0) out)))))
          = Some out'"
    by (auto simp: Let_def split: Option.bind_splits)
  from Cons.IH [OF run Cons.prems(2)] show ?case
    by (auto dest!: put_Face put_Vertex)
qed

lemma save_obj_ef_loop_good:
  "save_obj_ef_loop V E F cs i out = Some out' \<Longrightarrow> \<not> badbit out' \<Longrightarrow>
     \<not> badbit out \<and> object_names (written out') = object_names (written out)
     \<and> vertex_count (written out') = vertex_count (written out) + 5 * length cs"
proof (induction cs arbitrary: i out)
  case Nil
  then show ?case by simp
next
  case (Cons c cs)
  from Cons.prems(1) obtain r0 r1 r2 r3 r4 where
    run: "save_obj_ef_loop V E F cs (i + 5)
            (put (Face (i + 2) (i + 3) (i + 4)) (put (Line i (i + 1))
              (put (Vertex r4) (put (Vertex r3) (put (Vertex r2) (put (Vertex r1)
                (put (Vertex r0) out)))))))
          = Some out'"
    by (auto simp: Let_def split: Option.bind_splits)
  from Cons.IH [OF run Cons.prems(2)] show ?case
    by (auto dest!: put_Face put_Line put_Vertex)
qed

lemma ofstream_open_fresh:
  "written (ofstream_open fs filename) = []"
  "is_open (ofstream_open fs filename) \<longleftrightarrow> fs filename \<noteq> None"
  by (simp_all add: ofstream_open_def split: option.splits)

lemma Candidates_save_obj_returns:
  assumes "Candidates_save_obj c fs filename V E F = Some (b, out)"
  shows "b \<longleftrightarrow> fs filename \<noteq> None"
  using assms unfolding Candidates_save_obj_def Let_def
  by (auto simp: ofstream_open_fresh split: if_splits Option.bind_splits)

lemma Candidates_save_obj_unopened:
  assumes "fs filename = None"
  shows "Candidates_save_obj c fs filename V E F = Some (False, ofstream_open fs filename)"
  using assms by (simp add: Candidates_save_obj_def Let_def ofstream_open_fresh)

lemma Candidates_save_obj_complete:
  assumes run: "Candidates_save_obj c fs filename V E F = Some (True, out)"
    and good: "\<not> badbit out"
  shows "object_names (written out) = [''EV'', ''EE'', ''FV'']"
    and "vertex_count (written out)
           = 3 * length (ev_candidates c) + 4 * length (ee_candidates c)
             + 4 * length (fv_candidates c)"
proof -
  from run obtain o1 o2 where
    ev: "save_obj_ev (ofstream_open fs filename) V E F (ev_candidates c) = Some o1"
    and ee: "save_obj_ee o1 V E F (ee_candidates c) = Some o2"
    and fv: "save_obj_fv o2 V F F (fv_candidates c) = Some out"
    unfolding Candidates_save_obj_def Let_def
    by (auto split: if_splits Option.bind_splits)
  note f = save_obj_fv_loop_good [OF fv [unfolded save_obj_fv_def] good]
  then have g2: "\<not> badbit (put (Object ''FV'') o2)" by blast
  note p2 = put_Object [OF g2]
  then have g2': "\<not> badbit o2" by blast
  note e = save_obj_ee_loop_good [OF ee [unfolded save_obj_ee_def] g2']
  then have g1: "\<not> badbit (put (Object ''EE'') o1)" by blast
  note p1 = put_Object [OF g1]
  then have g1': "\<not> badbit o1" by blast
  note v = save_obj_ev_loop_good [OF ev [unfolded save_obj_ev_def] g1']
  note g0 = v [THEN conjunct1]
  note p0 = put_Object [OF g0]
  from f p2 e p1 v p0 show "object_names (written out) = [''EV'', ''EE'', ''FV'']"
    by (simp add: ofstream_open_fresh)
  from f p2 e p1 v p0 show "vertex_count (written out)
           = 3 * length (ev_candidates c) + 4 * length (ee_candidates c)
             + 4 * length (fv_candidates c)"
    by (simp add: ofstream_open_fresh)
qed

text \<open>
  Conversely, when every candidate's indices are inside the tables, the file opens and
  takes the \<open>3 + 4|ev| + 6|ee| + 5|fv|\<close> records of the content, the call returns
  true and no write fails.
\<close>

lemma put_ready_Suc:
  "ready (Suc n) out \<Longrightarrow> ready n (put x out) \<and> room (put x out) = room out - 1"
  by (auto simp: ready_def put_def)

lemma save_obj_ev_loop_succeeds:
  assumes "\<forall>c \<in> set cs. vertex_ok V V (sint (ev_vertex_index c))
             \<and> element_ok V V E 2 (sint (ev_edge_index c))"
    and "ready (4 * length cs + n) out"
  shows "\<exists>out'. save_obj_ev_loop V E F cs i out = Some out' \<and> ready n out'"
  using assms
proof (induction cs arbitrary: i out)
  case Nil
  then show ?case by simp
next
  case (Cons c cs)
  from Cons.prems(1) have v: "vertex_ok V V (sint (ev_vertex_index c))"
    and e: "element_ok V V E 2 (sint (ev_edge_index c))"
    and rest: "\<forall>c \<in> set cs. vertex_ok V V (sint (ev_vertex_index c))
             \<and> element_ok V V E 2 (sint (ev_edge_index c))"
    by simp_all
  let ?out = "put (Line i (i + 1)) (put (Vertex (vrow V (ev_vertex_index c)))
    (put (Vertex (trow V E (ev_edge_index c) 1)) (put (Vertex (trow V E (ev_edge_index c) 0)) out)))"
  from Cons.prems(2) have "ready (Suc (Suc (Suc (Suc (4 * length cs + n))))) out"
    by (simp add: ready_def)
  then have "ready (4 * length cs + n) ?out"
    by (blast dest: put_ready_Suc)
  from Cons.IH [OF rest this, of "i + 3"] show ?case
    by (simp add: vertex_ok_row [OF v] element_ok_rows [OF e])
qed


lemma save_obj_ee_loop_succeeds:
  assumes "\<forall>c \<in> set cs. element_ok V V E 2 (sint (edge0_index c))
             \<and> element_ok V V E 2 (sint (edge1_index c))"
    and "ready (6 * length cs + n) out"
  shows "\<exists>out'. save_obj_ee_loop V E F cs i out = Some out' \<and> ready n out'"
  using assms
proof (induction cs arbitrary: i out)
  case Nil
  then show ?case by simp
next
  case (Cons c cs)
  from Cons.prems(1) have e0: "element_ok V V E 2 (sint (edge0_index c))"
    and e1: "element_ok V V E 2 (sint (edge1_index c))"
    and rest: "\<forall>c \<in> set cs. element_ok V V E 2 (sint (edge0_index c))
             \<and> element_ok V V E 2 (sint (edge1_index c))"
    by simp_all
  let ?out = "put (Line (i + 2) (i + 3)) (put (Line (i + 0) (i + 1))
    (put (Vertex (trow V E (edge1_index c) 1)) (put (Vertex (trow V E (edge1_index c) 0))
    (put (Vertex (trow V E (edge0_index c) 1)) (put (Vertex (trow V E (edge0_index c) 0))
      out)))))"
  from Cons.prems(2)
  have "ready (Suc (Suc (Suc (Suc (Suc (Suc (6 * length cs + n))))))) out"
    by (simp add: ready_def)
  then have "ready (6 * length cs + n) ?out"
    by (blast dest: put_ready_Suc)
  from Cons.IH [OF rest this, of "i + 4"] show ?case
    by (simp add: element_ok_rows [OF e0] element_ok_rows [OF e1])
qed

lemma save_obj_fv_loop_succeeds:
  assumes "\<forall>c \<in> set cs. vertex_ok V V (sint (fv_vertex_index c))
             \<and> element_ok V V F 3 (sint (fv_face_index c))"
    and "ready (5 * length cs + n) out"
  shows "\<exists>out'. save_obj_fv_loop V E F cs i out = Some out' \<and> ready n out'"
  using assms
proof (induction cs arbitrary: i out)
  case Nil
  then show ?case by simp
next
  case (Cons c cs)
  from Cons.prems(1) have v: "vertex_ok V V (sint (fv_vertex_index c))"
    and f: "element_ok V V F 3 (sint (fv_face_index c))"
    and rest: "\<forall>c \<in> set cs. vertex_ok V V (sint (fv_vertex_index c))
             \<and> element_ok V V F 3 (sint (fv_face_index c))"
    by simp_all
  let ?out = "put (Face i (i + 1) (i + 2)) (put (Vertex (vrow V (fv_vertex_index c)))
    (put (Vertex (trow V F (fv_face_index c) 2)) (put (Vertex (trow V F (fv_face_index c) 1))
    (put (Vertex (trow V F (fv_face_index c) 0)) out))))"
  from Cons.prems(2) have "ready (Suc (Suc (Suc (Suc (Suc (5 * length cs + n)))))) out"
    by (simp add: ready_def)
  then have "ready (5 * length cs + n) ?out"
    by (blast dest: put_ready_Suc)
  from Cons.IH [OF rest this, of "i + 4"] show ?case
    by (simp add: vertex_ok_row [OF v] element_ok_rows [OF f])
qed

lemma Candidates_save_obj_succeeds:
  assumes ev: "\<forall>c \<in> set (ev_candidates c). vertex_ok V V (sint (ev_vertex_index c))
             \<and> element_ok V V E 2 (sint (ev_edge_index c))"
    and ee: "\<forall>c \<in> set (ee_candidates c). element_ok V V E 2 (sint (edge0_index c))
             \<and> element_ok V V E 2 (sint (edge1_index c))"
    and fv: "\<forall>c \<in> set (fv_candidates c). vertex_ok V V (sint (fv_vertex_index c))
             \<and> element_ok V V F 3 (sint (fv_face_index c))"
    and opens: "fs filename = Some n"
    and fits: "3 + 4 * length (ev_candidates c) + 6 * length (ee_candidates c)
               + 5 * length (fv_candidates c) \<le> n"
  shows "\<exists>out. Candidates_save_obj c fs filename (V :: 'd matrix) E F = Some (True, out)
           \<and> \<not> badbit out"
proof -
  let ?o = "ofstream_open fs filename :: 'd ofstream"
  let ?k2 = "5 * length (fv_candidates c)"
  let ?k1 = "Suc (6 * length (ee_candidates c) + ?k2)"
  from opens fits have o: "is_open ?o"
    and "ready (Suc (4 * length (ev_candidates c) + Suc ?k1)) ?o"
    by (simp_all add: ofstream_open_def ready_def)
  then have "ready (4 * length (ev_candidates c) + Suc ?k1) (put (Object ''EV'') ?o)"
    by (blast dest: put_ready_Suc)
  from save_obj_ev_loop_succeeds [OF ev this] obtain o1 where
    r1: "save_obj_ev ?o V E F (ev_candidates c) = Some o1" and "ready (Suc ?k1) o1"
    unfolding save_obj_ev_def by blast
  then have "ready (6 * length (ee_candidates c) + Suc ?k2) (put (Object ''EE'') o1)"
    by (auto dest: put_ready_Suc)
  from save_obj_ee_loop_succeeds [OF ee this] obtain o2 where
    r2: "save_obj_ee o1 V E F (ee_candidates c) = Some o2" and "ready (Suc ?k2) o2"
    unfolding save_obj_ee_def by blast
  then have "ready (5 * length (fv_candidates c) + 0) (put (Object ''FV'') o2)"
    by (auto dest: put_ready_Suc)
  from save_obj_fv_loop_succeeds [OF fv this] obtain o3 where
    r3: "save_obj_fv o2 V F F (fv_candidates c) = Some o3" and "ready 0 o3"
    unfolding save_obj_fv_def by blast
  with o r1 r2 show ?thesis
    by (simp add: Candidates_save_obj_def Let_def ready_def)
qed

text \<open>
  More generally, on a container whose indices are inside the tables the call always
  returns once the file is open, and the stream has failed at the end exactly when the
  file takes fewer records than the content has.
\<close>

lemma put_fails_within:
  "is_open out \<Longrightarrow>
     is_open (put x out) \<and> (fails_within k (put x out) \<longleftrightarrow> fails_within (Suc k) out)"
  by (auto simp: put_def fails_within_def)

lemma save_obj_ev_loop_total:
  assumes "list_all (\<lambda>x. vertex_ok V V (sint (ev_vertex_index x))
             \<and> element_ok V V E 2 (sint (ev_edge_index x))) cs"
    and "is_open out"
  shows "\<exists>out'. save_obj_ev_loop V E F cs i out = Some out' \<and> is_open out'
           \<and> (fails_within k out' \<longleftrightarrow> fails_within (4 * length cs + k) out)"
  using assms
proof (induction cs arbitrary: i out)
  case Nil
  then show ?case by simp
next
  case (Cons c cs)
  from Cons.prems(1) have v: "vertex_ok V V (sint (ev_vertex_index c))"
    and e: "element_ok V V E 2 (sint (ev_edge_index c))"
    and rest: "list_all (\<lambda>x. vertex_ok V V (sint (ev_vertex_index x))
             \<and> element_ok V V E 2 (sint (ev_edge_index x))) cs"
    by simp_all
  let ?o1 = "put (Vertex (trow V E (ev_edge_index c) 0)) out"
  let ?o2 = "put (Vertex (trow V E (ev_edge_index c) 1)) ?o1"
  let ?o3 = "put (Vertex (vrow V (ev_vertex_index c))) ?o2"
  let ?o4 = "put (Line i (i + 1)) ?o3"
  note p1 = put_fails_within [OF Cons.prems(2), of "Vertex (trow V E (ev_edge_index c) 0)"]
  note p2 = put_fails_within [OF p1 [THEN conjunct1], of "Vertex (trow V E (ev_edge_index c) 1)"]
  note p3 = put_fails_within [OF p2 [THEN conjunct1], of "Vertex (vrow V (ev_vertex_index c))"]
  note p4 = put_fails_within [OF p3 [THEN conjunct1], of "Line i (i + 1)"]
  from Cons.IH [OF rest p4 [THEN conjunct1], of "i + 3"] obtain out' where
    run: "save_obj_ev_loop V E F cs (i + 3) ?o4 = Some out'" and op: "is_open out'"
    and fw: "fails_within k out' \<longleftrightarrow> fails_within (4 * length cs + k) ?o4"
    by blast
  from p1 p2 p3 p4 have chain: "fails_within (4 * length cs + k) ?o4
      \<longleftrightarrow> fails_within (Suc (Suc (Suc (Suc (4 * length cs + k))))) out"
    by simp
  have eq: "fails_within (4 * length (c # cs) + k) out
      \<longleftrightarrow> fails_within (Suc (Suc (Suc (Suc (4 * length cs + k))))) out"
    by (rule arg_cong [where f = "\<lambda>n. fails_within n out"]) simp
  from run have step: "save_obj_ev_loop V E F (c # cs) i out = Some out'"
    by (simp add: vertex_ok_row [OF v] element_ok_rows [OF e])
  from fw chain eq
  have "fails_within k out' \<longleftrightarrow> fails_within (4 * length (c # cs) + k) out"
    by blast
  with step op show ?case by blast
qed


lemma save_obj_ee_loop_total:
  assumes "list_all (\<lambda>x. element_ok V V E 2 (sint (edge0_index x))
             \<and> element_ok V V E 2 (sint (edge1_index x))) cs"
    and "is_open out"
  shows "\<exists>out'. save_obj_ee_loop V E F cs i out = Some out' \<and> is_open out'
           \<and> (fails_within k out' \<longleftrightarrow> fails_within (6 * length cs + k) out)"
  using assms
proof (induction cs arbitrary: i out)
  case Nil
  then show ?case by simp
next
  case (Cons c cs)
  from Cons.prems(1) have e0: "element_ok V V E 2 (sint (edge0_index c))"
    and e1: "element_ok V V E 2 (sint (edge1_index c))"
    and rest: "list_all (\<lambda>x. element_ok V V E 2 (sint (edge0_index x))
             \<and> element_ok V V E 2 (sint (edge1_index x))) cs"
    by simp_all
  let ?o1 = "put (Vertex (trow V E (edge0_index c) 0)) out"
  let ?o2 = "put (Vertex (trow V E (edge0_index c) 1)) ?o1"
  let ?o3 = "put (Vertex (trow V E (edge1_index c) 0)) ?o2"
  let ?o4 = "put (Vertex (trow V E (edge1_index c) 1)) ?o3"
  let ?o5 = "put (Line (i + 0) (i + 1)) ?o4"
  let ?o6 = "put (Line (i + 2) (i + 3)) ?o5"
  note p1 = put_fails_within [OF Cons.prems(2), of "Vertex (trow V E (edge0_index c) 0)"]
  note p2 = put_fails_within [OF p1 [THEN conjunct1], of "Vertex (trow V E (edge0_index c) 1)"]
  note p3 = put_fails_within [OF p2 [THEN conjunct1], of "Vertex (trow V E (edge1_index c) 0)"]
  note p4 = put_fails_within [OF p3 [THEN conjunct1], of "Vertex (trow V E (edge1_index c) 1)"]
  note p5 = put_fails_within [OF p4 [THEN conjunct1], of "Line (i + 0) (i + 1)"]
  note p6 = put_fails_within [OF p5 [THEN conjunct1], of "Line (i + 2) (i + 3)"]
  from Cons.IH [OF rest p6 [THEN conjunct1], of "i + 4"] obtain out' where
    run: "save_obj_ee_loop V E F cs (i + 4) ?o6 = Some out'" and op: "is_open out'"
    and fw: "fails_within k out' \<longleftrightarrow> fails_within (6 * length cs + k) ?o6"
    by blast
  from p1 p2 p3 p4 p5 p6 have chain: "fails_within (6 * length cs + k) ?o6
      \<longleftrightarrow> fails_within (Suc (Suc (Suc (Suc (Suc (Suc (6 * length cs + k))))))) out"
    by simp
  have eq: "fails_within (6 * length (c # cs) + k) out
      \<longleftrightarrow> fails_within (Suc (Suc (Suc (Suc (Suc (Suc (6 * length cs + k))))))) out"
    by (rule arg_cong [where f = "\<lambda>n. fails_within n out"]) simp
  from run have step: "save_obj_ee_loop V E F (c # cs) i out = Some out'"
    by (simp add: element_ok_rows [OF e0] element_ok_rows [OF e1])
  from fw chain eq
  have "fails_within k out' \<longleftrightarrow> fails_within (6 * length (c # cs) + k) out"
    by blast
  with step op show ?case by blast
qed

lemma save_obj_fv_loop_total:
  assumes "list_all (\<lambda>x. vertex_ok V V (sint (fv_vertex_index x))
             \<and> element_ok V V F 3 (sint (fv_face_index x))) cs"
    and "is_open out"
  shows "\<exists>out'. save_obj_fv_loop V E F cs i out = Some out' \<and> is_open out'
           \<and> (fails_within k out' \<longleftrightarrow> fails_within (5 * length cs + k) out)"
  using assms
proof (induction cs arbitrary: i out)
  case Nil
  then show ?case by simp
next
  case (Cons c cs)
  from Cons.prems(1) have v: "vertex_ok V V (sint (fv_vertex_index c))"
    and f: "element_ok V V F 3 (sint (fv_face_index c))"
    and rest: "list_all (\<lambda>x. vertex_ok V V (sint (fv_vertex_index x))
             \<and> element_ok V V F 3 (sint (fv_face_index x))) cs"
    by simp_all
  let ?o1 = "put (Vertex (trow V F (fv_face_index c) 0)) out"
  let ?o2 = "put (Vertex (trow V F (fv_face_index c) 1)) ?o1"
  let ?o3 = "put (Vertex (trow V F (fv_face_index c) 2)) ?o2"
  let ?o4 = "put (Vertex (vrow V (fv_vertex_index c))) ?o3"
  let ?o5 = "put (Face i (i + 1) (i + 2)) ?o4"
  note p1 = put_fails_within [OF Cons.prems(2), of "Vertex (trow V F (fv_face_index c) 0)"]
  note p2 = put_fails_within [OF p1 [THEN conjunct1], of "Vertex (trow V F (fv_face_index c) 1)"]
  note p3 = put_fails_within [OF p2 [THEN conjunct1], of "Vertex (trow V F (fv_face_index c) 2)"]
  note p4 = put_fails_within [OF p3 [THEN conjunct1], of "Vertex (vrow V (fv_vertex_index c))"]
  note p5 = put_fails_within [OF p4 [THEN conjunct1], of "Face i (i + 1) (i + 2)"]
  from Cons.IH [OF rest p5 [THEN conjunct1], of "i + 4"] obtain out' where
    run: "save_obj_fv_loop V E F cs (i + 4) ?o5 = Some out'" and op: "is_open out'"
    and fw: "fails_within k out' \<longleftrightarrow> fails_within (5 * length cs + k) ?o5"
    by blast
  from p1 p2 p3 p4 p5 have chain: "fails_within (5 * length cs + k) ?o5
      \<longleftrightarrow> fails_within (Suc (Suc (Suc (Suc (Suc (5 * length cs + k)))))) out"
    by simp
  have eq: "fails_within (5 * length (c # cs) + k) out
      \<longleftrightarrow> fails_within (Suc (Suc (Suc (Suc (Suc (5 * length cs + k)))))) out"
    by (rule arg_cong [where f = "\<lambda>n. fails_within n out"]) simp
  from run have step: "save_obj_fv_loop V E F (c # cs) i out = Some out'"
    by (simp add: vertex_ok_row [OF v] element_ok_rows [OF f])
  from fw chain eq
  have "fails_within k out' \<longleftrightarrow> fails_within (5 * length (c # cs) + k) out"
    by blast
  with step op show ?case by blast
qed

lemma Candidates_save_obj_total:
  fixes V :: "'d matrix"
  assumes wf: "candidates_in_range c V E F"
    and opens: "fs filename = Some n"
  shows "\<exists>out. Candidates_save_obj c fs filename V E F = Some (True, out)
           \<and> (badbit out \<longleftrightarrow> n < content_size c)"
proof -
  let ?o = "ofstream_open fs filename :: 'd ofstream"
  let ?k2 = "Suc (5 * length (fv_candidates c) + 0)"
  let ?k1 = "Suc (6 * length (ee_candidates c) + ?k2)"
  let ?k0 = "Suc (4 * length (ev_candidates c) + ?k1)"
  from wf have ev: "list_all (\<lambda>x. vertex_ok V V (sint (ev_vertex_index x))
             \<and> element_ok V V E 2 (sint (ev_edge_index x))) (ev_candidates c)"
    and ee: "list_all (\<lambda>x. element_ok V V E 2 (sint (edge0_index x))
             \<and> element_ok V V E 2 (sint (edge1_index x))) (ee_candidates c)"
    and fv: "list_all (\<lambda>x. vertex_ok V V (sint (fv_vertex_index x))
             \<and> element_ok V V F 3 (sint (fv_face_index x))) (fv_candidates c)"
    by (simp_all add: candidates_in_range_def)
  from opens have o: "is_open ?o" and start: "fails_within ?k0 ?o \<longleftrightarrow> n < ?k0"
    by (simp_all add: ofstream_open_def fails_within_def)
  note q0 = put_fails_within [OF o, of "Object ''EV''" "4 * length (ev_candidates c) + ?k1"]
  from save_obj_ev_loop_total [OF ev q0 [THEN conjunct1], of F 1 ?k1] obtain o1 where
    r1: "save_obj_ev ?o V E F (ev_candidates c) = Some o1" and op1: "is_open o1"
    and f1: "fails_within ?k1 o1
      \<longleftrightarrow> fails_within (4 * length (ev_candidates c) + ?k1) (put (Object ''EV'') ?o)"
    unfolding save_obj_ev_def by blast
  note q1 = put_fails_within [OF op1, of "Object ''EE''" "6 * length (ee_candidates c) + ?k2"]
  from save_obj_ee_loop_total [OF ee q1 [THEN conjunct1], of F 1 ?k2] obtain o2 where
    r2: "save_obj_ee o1 V E F (ee_candidates c) = Some o2" and op2: "is_open o2"
    and f2: "fails_within ?k2 o2
      \<longleftrightarrow> fails_within (6 * length (ee_candidates c) + ?k2) (put (Object ''EE'') o1)"
    unfolding save_obj_ee_def by blast
  note q2 = put_fails_within [OF op2, of "Object ''FV''" "5 * length (fv_candidates c) + 0"]
  from save_obj_fv_loop_total [OF fv q2 [THEN conjunct1], of F 1 0] obtain o3 where
    r3: "save_obj_fv o2 V F F (fv_candidates c) = Some o3"
    and f3: "fails_within 0 o3
      \<longleftrightarrow> fails_within (5 * length (fv_candidates c) + 0) (put (Object ''FV'') o2)"
    unfolding save_obj_fv_def by blast
  from f3 q2 f2 q1 f1 q0 start have "fails_within 0 o3 \<longleftrightarrow> n < ?k0"
    by blast
  moreover have "?k0 = content_size c"
    by (simp add: content_size_def)
  ultimately have "badbit o3 \<longleftrightarrow> n < content_size c"
    by (simp add: fails_within_def)
  with o r1 r2 r3 show ?thesis
    by (simp add: Candidates_save_obj_def Let_def)
qed

text \<open>Evaluating \<^verbatim>\<open><<\<close> on a stream whose state is known.\<close>

lemma put_ready:
  "put x \<lparr>is_open = True, badbit = False, room = Suc n, written = w\<rparr>
     = \<lparr>is_open = True, badbit = False, room = n, written = w @ [x]\<rparr>"
  by (simp add: put_def)

lemma put_full:
  "put x \<lparr>is_open = True, badbit = False, room = 0, written = w\<rparr>
     = \<lparr>is_open = True, badbit = True, room = 0, written = w\<rparr>"
  by (simp add: put_def)

lemma put_failed:
  "put x \<lparr>is_open = b, badbit = True, room = n, written = w\<rparr>
     = \<lparr>is_open = b, badbit = True, room = n, written = w\<rparr>"
  by (simp add: put_def)

lemmas obj_eval = Candidates_save_obj_def ofstream_open_def save_obj_ev_def save_obj_ee_def
  save_obj_fv_def row_def coeff_def in_rows_def put_ready put_full put_failed
  eval_nat_numeral

text \<open>
  C4, as the code has it. For every container on which \<^verbatim>\<open>Candidates::save_obj\<close>
  returns true and no write failed, the file holds three named objects, headed
  \<^verbatim>\<open>o EV\<close>, \<^verbatim>\<open>o EE\<close> and \<^verbatim>\<open>o FV\<close> in that order; the member function writes no
  \<^verbatim>\<open>o EF\<close> object.
\<close>

theorem Candidates_save_obj_three_objects:
  assumes "Candidates_save_obj c fs filename V E F = Some (True, out)"
    and "\<not> badbit out"
  shows "object_names (written out) = [''EV'', ''EE'', ''FV'']"
  using assms by (rule Candidates_save_obj_complete(1))

theorem Candidates_save_obj_three_objects_witness:
  "Candidates_save_obj
     \<lparr>ev_candidates = [EdgeVertexCandidate 0 2], ee_candidates = [EdgeEdgeCandidate 0 1],
      fv_candidates = [FaceVertexCandidate 0 3]\<rparr>
     [''candidates.obj'' \<mapsto> 20] ''candidates.obj''
     [[0, 0, 0], [1, 0, 0], [0, 1, 0], [0, 0, 1 :: real]] [[0, 1], [1, 2], [2, 0]] [[0, 1, 2]]
   = Some (True, \<lparr>is_open = True, badbit = False, room = 2, written =
       [Object ''EV'', Vertex [0, 0, 0], Vertex [1, 0, 0], Vertex [0, 1, 0], Line 1 2,
        Object ''EE'', Vertex [0, 0, 0], Vertex [1, 0, 0], Vertex [1, 0, 0],
        Vertex [0, 1, 0], Line 1 2, Line 3 4,
        Object ''FV'', Vertex [0, 0, 0], Vertex [1, 0, 0], Vertex [0, 1, 0],
        Vertex [0, 0, 1], Face 1 2 3]\<rparr>)
   \<and> object_names
       [Object ''EV'', Vertex [0, 0, 0], Vertex [1, 0, 0], Vertex [0, 1, 0], Line 1 2,
        Object ''EE'', Vertex [0, 0, 0], Vertex [1, 0, 0], Vertex [1, 0, 0],
        Vertex [0, 1, 0], Line 1 2, Line 3 4,
        Object ''FV'', Vertex [0, 0, 0], Vertex [1, 0, 0], Vertex [0, 1, 0],
        Vertex [0, 0, 1 :: real], Face 1 2 3]
     = [''EV'', ''EE'', ''FV'']"
proof -
  have run: "Candidates_save_obj
     \<lparr>ev_candidates = [EdgeVertexCandidate 0 2], ee_candidates = [EdgeEdgeCandidate 0 1],
      fv_candidates = [FaceVertexCandidate 0 3]\<rparr>
     [''candidates.obj'' \<mapsto> 20] ''candidates.obj''
     [[0, 0, 0], [1, 0, 0], [0, 1, 0], [0, 0, 1 :: real]] [[0, 1], [1, 2], [2, 0]] [[0, 1, 2]]
   = Some (True, \<lparr>is_open = True, badbit = False, room = 2, written =
       [Object ''EV'', Vertex [0, 0, 0], Vertex [1, 0, 0], Vertex [0, 1, 0], Line 1 2,
        Object ''EE'', Vertex [0, 0, 0], Vertex [1, 0, 0], Vertex [1, 0, 0],
        Vertex [0, 1, 0], Line 1 2, Line 3 4,
        Object ''FV'', Vertex [0, 0, 0], Vertex [1, 0, 0], Vertex [0, 1, 0],
        Vertex [0, 0, 1], Face 1 2 3]\<rparr>)"
    by (simp add: obj_eval)
  from Candidates_save_obj_three_objects [OF run] run show ?thesis
    by simp
qed

text \<open>
  C4 as stated fails on a container with one EV candidate, written to a file with room
  to spare: the call returns true and the file has the three objects EV, EE and FV, not
  the four the claim lists.
\<close>

theorem Candidates_save_obj_no_EF_counterexample:
  "Candidates_save_obj
     \<lparr>ev_candidates = [EdgeVertexCandidate 0 2], ee_candidates = [],
      fv_candidates = []\<rparr>
     [''candidates.obj'' \<mapsto> 10] ''candidates.obj''
     [[0, 0, 0], [1, 0, 0], [0, 1, 0], [0, 0, 1 :: real]] [[0, 1]] []
   = Some (True, \<lparr>is_open = True, badbit = False, room = 3, written =
       [Object ''EV'', Vertex [0, 0, 0], Vertex [1, 0, 0], Vertex [0, 1, 0], Line 1 2,
        Object ''EE'', Object ''FV'']\<rparr>)
   \<and> object_names
       [Object ''EV'', Vertex [0, 0, 0], Vertex [1, 0, 0], Vertex [0, 1, 0 :: real],
        Line 1 2, Object ''EE'', Object ''FV'']
     \<noteq> [''EV'', ''EE'', ''FV'', ''EF'']"
  by (simp add: obj_eval)

text \<open>
  C5. Each of the writers starts its counter at 1, and \<^verbatim>\<open>Candidates::save_obj\<close>
  writes their output into one file. With one EV candidate followed by one EE candidate,
  the EE candidate's vertices are the vertices 4 to 7 of the file, and its two lines
  are written as \<^verbatim>\<open>l 1 2\<close> and \<^verbatim>\<open>l 3 4\<close>: they refer to the vertices of the EV
  candidate, not to its own.
\<close>

theorem Candidates_save_obj_counter_restarts:
  "Candidates_save_obj
     \<lparr>ev_candidates = [EdgeVertexCandidate 0 2], ee_candidates = [EdgeEdgeCandidate 0 1],
      fv_candidates = []\<rparr>
     [''candidates.obj'' \<mapsto> 14] ''candidates.obj''
     [[0, 0, 0], [1, 0, 0], [0, 1, 0], [1, 1, 0 :: real]] [[0, 1], [2, 3]] []
   = Some (True, \<lparr>is_open = True, badbit = False, room = 1, written =
       [Object ''EV'', Vertex [0, 0, 0], Vertex [1, 0, 0], Vertex [0, 1, 0], Line 1 2,
        Object ''EE'', Vertex [0, 0, 0], Vertex [1, 0, 0], Vertex [0, 1, 0],
        Vertex [1, 1, 0], Line 1 2, Line 3 4, Object ''FV'']\<rparr>)
   \<and> \<not> refers_own 0 0 True
       [Object ''EV'', Vertex [0, 0, 0], Vertex [1, 0, 0], Vertex [0, 1, 0], Line 1 2,
        Object ''EE'', Vertex [0, 0, 0], Vertex [1, 0, 0], Vertex [0, 1, 0],
        Vertex [1, 1, 0 :: real], Line 1 2, Line 3 4, Object ''FV'']
   \<and> refers_own 0 0 True
       [Object ''EV'', Vertex [0, 0, 0], Vertex [1, 0, 0], Vertex [0, 1, 0], Line 1 2,
        Object ''EE'', Vertex [0, 0, 0], Vertex [1, 0, 0], Vertex [0, 1, 0],
        Vertex [1, 1, 0 :: real], Line 4 5, Line 6 7, Object ''FV'']"
  by (simp add: obj_eval own_vertex_def)

text \<open>
  C8, as the code has it. \<^verbatim>\<open>Candidates::save_obj\<close> returns false whenever opening the
  file fails. On every container whose indices are inside the mesh tables it returns,
  and it returns true exactly when the file could be opened; whether the writes that
  follow succeed is not looked at: when the file opens and takes \<open>n\<close> records, the call
  returns true, and the stream has failed exactly when \<open>n\<close> is less than the number of
  records of the content. Whenever the call returns at all, it returns true exactly when
  the file could be opened.
\<close>

theorem Candidates_save_obj_true_iff_opened:
  "(fs filename = None \<longrightarrow>
      Candidates_save_obj c fs filename V E F = Some (False, ofstream_open fs filename))
   \<and> (candidates_in_range c V E F \<longrightarrow>
      (\<exists>out. Candidates_save_obj c fs filename V E F = Some (fs filename \<noteq> None, out)))
   \<and> (candidates_in_range c V E F \<and> fs filename = Some n \<longrightarrow>
      (\<exists>out. Candidates_save_obj c fs filename V E F = Some (True, out)
             \<and> (badbit out \<longleftrightarrow> n < content_size c)))
   \<and> (Candidates_save_obj c fs filename V E F = Some (b, out) \<longrightarrow>
      (b \<longleftrightarrow> fs filename \<noteq> None))"
proof (intro conjI impI)
  assume "fs filename = None"
  then show "Candidates_save_obj c fs filename V E F = Some (False, ofstream_open fs filename)"
    by (rule Candidates_save_obj_unopened)
next
  assume wf: "candidates_in_range c V E F"
  show "\<exists>out. Candidates_save_obj c fs filename V E F = Some (fs filename \<noteq> None, out)"
  proof (cases "fs filename")
    case None
    then show ?thesis by (simp add: Candidates_save_obj_unopened)
  next
    case (Some m)
    from Candidates_save_obj_total [where fs = fs and filename = filename, OF wf Some] Some
    show ?thesis by auto
  qed
next
  assume "candidates_in_range c V E F \<and> fs filename = Some n"
  then show "\<exists>out. Candidates_save_obj c fs filename V E F = Some (True, out)
             \<and> (badbit out \<longleftrightarrow> n < content_size c)"
    using Candidates_save_obj_total [where fs = fs and filename = filename and c = c
        and V = V and E = E and F = F and n = n]
    by blast
next
  assume "Candidates_save_obj c fs filename V E F = Some (b, out)"
  then show "b \<longleftrightarrow> fs filename \<noteq> None"
    by (rule Candidates_save_obj_returns)
qed

text \<open>A container with one EE candidate, whose content is nine records: on a file that
  cannot be opened, on one that takes four records and on one that takes nine.\<close>

theorem Candidates_save_obj_true_iff_opened_witness:
  "candidates_in_range
     \<lparr>ev_candidates = [], ee_candidates = [EdgeEdgeCandidate 0 1], fv_candidates = []\<rparr>
     [[0, 0, 0], [1, 0, 0], [0, 1, 0], [1, 1, 0 :: real]] [[0, 1], [2, 3]] []
   \<and> content_size
     \<lparr>ev_candidates = [], ee_candidates = [EdgeEdgeCandidate 0 1], fv_candidates = []\<rparr> = 9
   \<and> Candidates_save_obj
     \<lparr>ev_candidates = [], ee_candidates = [EdgeEdgeCandidate 0 1], fv_candidates = []\<rparr>
     Map.empty ''candidates.obj''
     [[0, 0, 0], [1, 0, 0], [0, 1, 0], [1, 1, 0 :: real]] [[0, 1], [2, 3]] []
   = Some (False, \<lparr>is_open = False, badbit = True, room = 0, written = []\<rparr>)
   \<and> Candidates_save_obj
     \<lparr>ev_candidates = [], ee_candidates = [EdgeEdgeCandidate 0 1], fv_candidates = []\<rparr>
     [''candidates.obj'' \<mapsto> 4] ''candidates.obj''
     [[0, 0, 0], [1, 0, 0], [0, 1, 0], [1, 1, 0 :: real]] [[0, 1], [2, 3]] []
   = Some (True, \<lparr>is_open = True, badbit = True, room = 0, written =
       [Object ''EV'', Object ''EE'', Vertex [0, 0, 0], Vertex [1, 0, 0]]\<rparr>)
   \<and> Candidates_save_obj
     \<lparr>ev_candidates = [], ee_candidates = [EdgeEdgeCandidate 0 1], fv_candidates = []\<rparr>
     [''candidates.obj'' \<mapsto> 9] ''candidates.obj''
     [[0, 0, 0], [1, 0, 0], [0, 1, 0], [1, 1, 0 :: real]] [[0, 1], [2, 3]] []
   = Some (True, \<lparr>is_open = True, badbit = False, room = 0, written =
       [Object ''EV'', Object ''EE'', Vertex [0, 0, 0], Vertex [1, 0, 0],
        Vertex [0, 1, 0], Vertex [1, 1, 0], Line 1 2, Line 3 4, Object ''FV'']\<rparr>)"
  using Candidates_save_obj_true_iff_opened
    [where fs = Map.empty and filename = "''candidates.obj''"
       and c = "\<lparr>ev_candidates = [], ee_candidates = [EdgeEdgeCandidate 0 1],
                 fv_candidates = []\<rparr>"
       and V = "[[0, 0, 0], [1, 0, 0], [0, 1, 0], [1, 1, 0 :: real]]"
       and E = "[[0, 1], [2, 3]]" and F = "[]"]
    Candidates_save_obj_true_iff_opened
    [where fs = "[''candidates.obj'' \<mapsto> 4]" and filename = "''candidates.obj''"
       and c = "\<lparr>ev_candidates = [], ee_candidates = [EdgeEdgeCandidate 0 1],
                 fv_candidates = []\<rparr>"
       and V = "[[0, 0, 0], [1, 0, 0], [0, 1, 0], [1, 1, 0 :: real]]"
       and E = "[[0, 1], [2, 3]]" and F = "[]" and n = 4 and b = True
       and out = "\<lparr>is_open = True, badbit = True, room = 0, written =
         [Object ''EV'', Object ''EE'', Vertex [0, 0, 0], Vertex [1, 0, 0]]\<rparr>"]
    Candidates_save_obj_true_iff_opened
    [where fs = "[''candidates.obj'' \<mapsto> 9]" and filename = "''candidates.obj''"
       and c = "\<lparr>ev_candidates = [], ee_candidates = [EdgeEdgeCandidate 0 1],
                 fv_candidates = []\<rparr>"
       and V = "[[0, 0, 0], [1, 0, 0], [0, 1, 0], [1, 1, 0 :: real]]"
       and E = "[[0, 1], [2, 3]]" and F = "[]" and n = 9 and b = True
       and out = "\<lparr>is_open = True, badbit = False, room = 0, written =
         [Object ''EV'', Object ''EE'', Vertex [0, 0, 0], Vertex [1, 0, 0],
          Vertex [0, 1, 0], Vertex [1, 1, 0], Line 1 2, Line 3 4, Object ''FV'']\<rparr>"]
  by (simp add: obj_eval candidates_in_range_def content_size_def vertex_ok_def
      element_ok_def)

text \<open>
  C8 as stated fails when the file opens and the device then stops taking data. The
  content of this container is seven records; on a file that takes five, the call
  writes five, the stream fails, and the call still returns true, as it does on a file
  that takes all seven.
\<close>

theorem Candidates_save_obj_unchecked_write_counterexample:
  "Candidates_save_obj
     \<lparr>ev_candidates = [EdgeVertexCandidate 0 2], ee_candidates = [],
      fv_candidates = []\<rparr>
     [''candidates.obj'' \<mapsto> 5] ''candidates.obj'' [[0, 0, 0], [1, 0, 0], [0, 1, 0], [0, 0, 1 :: real]] [[0, 1]] []
   = Some (True, \<lparr>is_open = True, badbit = True, room = 0, written =
       [Object ''EV'', Vertex [0, 0, 0], Vertex [1, 0, 0], Vertex [0, 1, 0],
        Line 1 2]\<rparr>)
   \<and> Candidates_save_obj
     \<lparr>ev_candidates = [EdgeVertexCandidate 0 2], ee_candidates = [],
      fv_candidates = []\<rparr>
     [''candidates.obj'' \<mapsto> 7] ''candidates.obj'' [[0, 0, 0], [1, 0, 0], [0, 1, 0], [0, 0, 1 :: real]] [[0, 1]] []
   = Some (True, \<lparr>is_open = True, badbit = False, room = 0, written =
       [Object ''EV'', Vertex [0, 0, 0], Vertex [1, 0, 0], Vertex [0, 1, 0], Line 1 2,
        Object ''EE'', Object ''FV'']\<rparr>)"
  by (simp add: obj_eval)

end
